theory Spec2Isabelle
  imports Complex_Main "HOL-Library.AList"
begin

section \<open>Python values\<close>

text \<open>
  The application is a Flask program (\<^verbatim>\<open>app.py\<close>). What \<^verbatim>\<open>json.load\<close> returns, what is
  stored as a span attribute and what is passed as \<^verbatim>\<open>extra\<close> to the logger are dynamically
  typed Python values. A dict is an association list in insertion order.
\<close>

datatype pyval =
    PNone
  | PBool bool
  | PInt int
  | PFloat real
  | PStr string
  | PList "pyval list"
  | PDict "(string \<times> pyval) list"

datatype error =
    JSONDecodeError
  | AttributeError
  | KeyError
  | TypeError
  | HTTPException int

text \<open>Truth value testing, as \<^verbatim>\<open>not x\<close> and \<^verbatim>\<open>if x\<close> use it.\<close>

fun truthy :: "pyval \<Rightarrow> bool" where
  "truthy PNone = False"
| "truthy (PBool b) = b"
| "truthy (PInt i) = (i \<noteq> 0)"
| "truthy (PFloat x) = (x \<noteq> 0)"
| "truthy (PStr s) = (s \<noteq> [])"
| "truthy (PList xs) = (xs \<noteq> [])"
| "truthy (PDict kvs) = (kvs \<noteq> [])"

text \<open>\<^verbatim>\<open>x[key]\<close> with a string key: only a dict accepts it, and a missing key raises.\<close>

fun getitem :: "pyval \<Rightarrow> string \<Rightarrow> error + pyval" where
  "getitem (PDict kvs) k = (case map_of kvs k of None \<Rightarrow> Inl KeyError | Some v \<Rightarrow> Inr v)"
| "getitem PNone k = Inl TypeError"
| "getitem (PBool b) k = Inl TypeError"
| "getitem (PInt i) k = Inl TypeError"
| "getitem (PFloat x) k = Inl TypeError"
| "getitem (PStr s) k = Inl TypeError"
| "getitem (PList xs) k = Inl TypeError"

text \<open>\<^verbatim>\<open>for x in v\<close>: a list yields its items, a dict its keys, a string its characters.\<close>

fun iter :: "pyval \<Rightarrow> error + pyval list" where
  "iter (PList xs) = Inr xs"
| "iter (PDict kvs) = Inr (map (\<lambda>kv. PStr (fst kv)) kvs)"
| "iter (PStr s) = Inr (map (\<lambda>c. PStr [c]) s)"
| "iter PNone = Inl TypeError"
| "iter (PBool b) = Inl TypeError"
| "iter (PInt i) = Inl TypeError"
| "iter (PFloat x) = Inl TypeError"

fun len :: "pyval \<Rightarrow> error + int" where
  "len (PList xs) = Inr (int (length xs))"
| "len (PDict kvs) = Inr (int (length kvs))"
| "len (PStr s) = Inr (int (length s))"
| "len PNone = Inl TypeError"
| "len (PBool b) = Inl TypeError"
| "len (PInt i) = Inl TypeError"
| "len (PFloat x) = Inl TypeError"

text \<open>\<^verbatim>\<open>sep.join(xs)\<close> on a list of strings.\<close>

fun join :: "string \<Rightarrow> string list \<Rightarrow> string" where
  "join sep [] = []"
| "join sep [x] = x"
| "join sep (x # y # ys) = x @ sep @ join sep (y # ys)"

section \<open>Process state\<close>

text \<open>
  The backing file \<^verbatim>\<open>course_catalog.json\<close> is represented by what \<^verbatim>\<open>os.path.exists\<close> and
  \<^verbatim>\<open>json.load\<close> observe of it: it is absent (\<open>None\<close>), or its text is not a JSON document, or
  it is the JSON document that parses to a given value. \<^verbatim>\<open>json.dump\<close> followed by \<^verbatim>\<open>json.load\<close>
  gives the dumped value back, so a write stores the value itself.
\<close>

datatype file_content = NotJSON | JSON pyval

text \<open>
  A span of the OpenTelemetry SDK: its name, its attributes and whether \<^verbatim>\<open>end()\<close> was
  called. Spans are identified by their position in the list of all spans started.
\<close>

record otel_span =
  sp_name :: string
  sp_attributes :: "(string \<times> pyval) list"
  sp_ended :: bool

datatype level = INFO | ERROR

record log_record =
  levelname :: level
  message :: string
  extra :: "(string \<times> pyval) list"

record state =
  course_file :: "file_content option"
  spans :: "otel_span list"
  route_request_counter :: "(int \<times> (string \<times> pyval) list) list"
  route_processing_time :: "(real \<times> (string \<times> pyval) list) list"
  error_counter :: "(int \<times> (string \<times> pyval) list) list"
  logger :: "log_record list"
  flashes :: "(string \<times> string) list"

text \<open>The request as the views read it; \<open>request_method\<close> is \<^verbatim>\<open>request.method\<close>.\<close>

record request =
  request_method :: string
  path :: string
  url :: string
  remote_addr :: "string option"
  form :: "(string \<times> string) list"

text \<open>The two attributes \<^verbatim>\<open>before_request\<close> stores on the request object.\<close>

record request_local =
  start_time :: real
  request_span :: nat

datatype content = Template string "(string \<times> pyval) list" | Location string | Other

record response =
  status_code :: int
  content :: content

subsection \<open>Tracer, meter, logger and flash\<close>

text \<open>
  \<^verbatim>\<open>tracer.start_span(name, attributes=...)\<close> creates an open span.
  \<^verbatim>\<open>Span.set_attribute\<close> stores the value under the key while the span is open; on a span
  that has ended the SDK logs a warning and leaves the span as it is. \<^verbatim>\<open>Span.end\<close> on an
  ended span is ignored as well.
\<close>

definition start_span :: "string \<Rightarrow> (string \<times> pyval) list \<Rightarrow> state \<Rightarrow> nat \<times> state" where
  "start_span nm attrs s =
     (length (spans s),
      s\<lparr>spans := spans s @ [\<lparr>sp_name = nm, sp_attributes = attrs, sp_ended = False\<rparr>]\<rparr>)"

definition set_attribute :: "nat \<Rightarrow> string \<Rightarrow> pyval \<Rightarrow> state \<Rightarrow> state" where
  "set_attribute sid k v s =
     (if sid < length (spans s) \<and> \<not> sp_ended (spans s ! sid)
      then s\<lparr>spans := (spans s)[sid := (spans s ! sid)
              \<lparr>sp_attributes := AList.update k v (sp_attributes (spans s ! sid))\<rparr>]\<rparr>
      else s)"

definition end_span :: "nat \<Rightarrow> state \<Rightarrow> state" where
  "end_span sid s =
     (if sid < length (spans s) \<and> \<not> sp_ended (spans s ! sid)
      then s\<lparr>spans := (spans s)[sid := (spans s ! sid)\<lparr>sp_ended := True\<rparr>]\<rparr>
      else s)"

definition route_request_counter_add :: "int \<Rightarrow> (string \<times> pyval) list \<Rightarrow> state \<Rightarrow> state" where
  "route_request_counter_add n attrs s =
     s\<lparr>route_request_counter := route_request_counter s @ [(n, attrs)]\<rparr>"

text \<open>
  A histogram keeps the amount it is given. (A meter that discards a negative amount
  would differ from this only for a request during which the clock is set back.)
\<close>

definition route_processing_time_record :: "real \<Rightarrow> (string \<times> pyval) list \<Rightarrow> state \<Rightarrow> state" where
  "route_processing_time_record d attrs s =
     s\<lparr>route_processing_time := route_processing_time s @ [(d, attrs)]\<rparr>"

definition error_counter_add :: "int \<Rightarrow> (string \<times> pyval) list \<Rightarrow> state \<Rightarrow> state" where
  "error_counter_add n attrs s = s\<lparr>error_counter := error_counter s @ [(n, attrs)]\<rparr>"

definition logger_info :: "string \<Rightarrow> (string \<times> pyval) list \<Rightarrow> state \<Rightarrow> state" where
  "logger_info msg ex s =
     s\<lparr>logger := logger s @ [\<lparr>levelname = INFO, message = msg, extra = ex\<rparr>]\<rparr>"

definition logger_error :: "string \<Rightarrow> (string \<times> pyval) list \<Rightarrow> state \<Rightarrow> state" where
  "logger_error msg ex s =
     s\<lparr>logger := logger s @ [\<lparr>levelname = ERROR, message = msg, extra = ex\<rparr>]\<rparr>"

definition flash :: "string \<Rightarrow> string \<Rightarrow> state \<Rightarrow> state" where
  "flash msg category s = s\<lparr>flashes := flashes s @ [(category, msg)]\<rparr>"

definition render_template :: "string \<Rightarrow> (string \<times> pyval) list \<Rightarrow> response" where
  "render_template nm ctx = \<lparr>status_code = 200, content = Template nm ctx\<rparr>"

definition redirect :: "string \<Rightarrow> response" where
  "redirect loc = \<lparr>status_code = 302, content = Location loc\<rparr>"

text \<open>\<^verbatim>\<open>request.remote_addr\<close> is a string or \<^verbatim>\<open>None\<close>; so is \<^verbatim>\<open>request.form.get(key)\<close>.\<close>

definition opt_str :: "string option \<Rightarrow> pyval" where
  "opt_str x = (case x of None \<Rightarrow> PNone | Some v \<Rightarrow> PStr v)"

definition form_get :: "request \<Rightarrow> string \<Rightarrow> pyval" where
  "form_get r k = opt_str (map_of (form r) k)"

section \<open>Utility functions\<close>

definition load_courses :: "state \<Rightarrow> error + pyval" where
  "load_courses s =
     (case course_file s of
        None \<Rightarrow> Inr (PList [])
      | Some NotJSON \<Rightarrow> Inl JSONDecodeError
      | Some (JSON v) \<Rightarrow> Inr v)"

text \<open>\<^verbatim>\<open>courses.append(data)\<close> exists on a list only; the file is opened for writing after it.\<close>

definition save_courses :: "pyval \<Rightarrow> state \<Rightarrow> error + state" where
  "save_courses data s =
     (case load_courses s of
        Inl e \<Rightarrow> Inl e
      | Inr courses \<Rightarrow>
          (case courses of
             PList xs \<Rightarrow> Inr (s\<lparr>course_file := Some (JSON (PList (xs @ [data])))\<rparr>)
           | PNone \<Rightarrow> Inl AttributeError
           | PBool b \<Rightarrow> Inl AttributeError
           | PInt i \<Rightarrow> Inl AttributeError
           | PFloat x \<Rightarrow> Inl AttributeError
           | PStr t \<Rightarrow> Inl AttributeError
           | PDict kvs \<Rightarrow> Inl AttributeError))"

section \<open>Request hooks\<close>

text \<open>
  \<open>now\<close> is what \<^verbatim>\<open>time.time()\<close> returns when the hook runs: a reading of the wall clock,
  supplied by the environment.
\<close>

definition before_request :: "real \<Rightarrow> request \<Rightarrow> state \<Rightarrow> request_local \<times> state" where
  "before_request now r s =
     (let (sid, s) = start_span (request_method r @ '' '' @ path r)
                       [(''http.method'', PStr (request_method r)), (''http.url'', PStr (url r))] s
      in (\<lparr>start_time = now, request_span = sid\<rparr>, s))"

definition after_request ::
    "real \<Rightarrow> request \<Rightarrow> request_local \<Rightarrow> response \<Rightarrow> state \<Rightarrow> response \<times> state" where
  "after_request now r loc resp s =
     (let duration = (now - start_time loc) * 1000;
          s = set_attribute (request_span loc) ''http.status_code'' (PInt (status_code resp)) s;
          s = (if status_code resp \<ge> 400
               then set_attribute (request_span loc) ''error'' (PBool True) s else s);
          s = route_request_counter_add 1
                [(''route'', PStr (path r)), (''method'', PStr (request_method r))] s;
          s = route_processing_time_record duration
                [(''route'', PStr (path r)), (''method'', PStr (request_method r))] s;
          s = (if status_code resp \<ge> 400
               then error_counter_add 1
                      [(''route'', PStr (path r)), (''method'', PStr (request_method r))] s
               else s);
          s = end_span (request_span loc) s;
          s = logger_info ''Request processed''
                [(''method'', PStr (request_method r)),
                 (''path'', PStr (path r)),
                 (''status_code'', PInt (status_code resp)),
                 (''user_ip'', opt_str (remote_addr r)),
                 (''processing_time_ms'', PFloat duration)] s
      in (resp, s))"

section \<open>Views\<close>

text \<open>
  A view returns a response or raises. \<^verbatim>\<open>with tracer.start_as_current_span(name): block\<close>
  starts a span, makes it the current one while the block runs, and ends it when the block
  is left; \<^verbatim>\<open>trace.get_current_span()\<close> inside the block is that span. The variable bound
  to it in the block is still bound after the block, so the span is returned. Statements
  written after the block run after the span has ended. Rendering a template is taken to
  succeed; the templates are not part of the program text.
\<close>

definition start_as_current_span ::
    "string \<Rightarrow> (nat \<Rightarrow> state \<Rightarrow> state) \<Rightarrow> state \<Rightarrow> nat \<times> state" where
  "start_as_current_span nm block s =
     (let (sp, s) = start_span nm [] s;
          s = block sp s;
          s = end_span sp s
      in (sp, s))"

definition index :: "request \<Rightarrow> state \<Rightarrow> (error + response) \<times> state" where
  "index r s =
     (let (current_span, s) = start_as_current_span ''Rendering Home Page''
            (\<lambda>current_span s.
               let s = set_attribute current_span ''http.method'' (PStr (request_method r)) s;
                   s = set_attribute current_span ''user.ip'' (opt_str (remote_addr r)) s;
                   s = set_attribute current_span ''route'' (PStr ''/'') s
               in logger_info ''Successfully rendered the Home Page''
                    [(''route'', PStr ''/''),
                     (''method'', PStr (request_method r)),
                     (''user_ip'', opt_str (remote_addr r))] s) s
      in (Inr (render_template ''index.html'' []), s))"

text \<open>The list comprehension \<^verbatim>\<open>[course['name'] for course in courses]\<close>, item by item.\<close>

fun course_names :: "pyval list \<Rightarrow> error + pyval list" where
  "course_names [] = Inr []"
| "course_names (course # rest) =
     (case getitem course ''name'' of
        Inl e \<Rightarrow> Inl e
      | Inr v \<Rightarrow> (case course_names rest of Inl e \<Rightarrow> Inl e | Inr vs \<Rightarrow> Inr (v # vs)))"

definition course_catalog :: "request \<Rightarrow> state \<Rightarrow> (error + response) \<times> state" where
  "course_catalog r s =
     (let (current_span, s) = start_as_current_span ''Rendering Course Catalog''
            (\<lambda>current_span s.
               let s = set_attribute current_span ''http.method'' (PStr (request_method r)) s;
                   s = set_attribute current_span ''user.ip'' (opt_str (remote_addr r)) s;
                   s = set_attribute current_span ''route'' (PStr ''/catalog'') s
               in logger_info ''Successfully rendered the Course Catalog Page''
                    [(''route'', PStr ''/catalog''),
                     (''method'', PStr (request_method r)),
                     (''user_ip'', opt_str (remote_addr r))] s) s
      in case load_courses s of
           Inl e \<Rightarrow> (Inl e, s)
         | Inr courses \<Rightarrow>
             (case len courses of
                Inl e \<Rightarrow> (Inl e, s)
              | Inr n \<Rightarrow>
                  (let s = set_attribute current_span ''course.count'' (PInt n) s
                   in case iter courses of
                        Inl e \<Rightarrow> (Inl e, s)
                      | Inr items \<Rightarrow>
                          (case course_names items of
                             Inl e \<Rightarrow> (Inl e, s)
                           | Inr names \<Rightarrow>
                               (let s = set_attribute current_span ''course.names'' (PList names) s
                                in (Inr (render_template ''course_catalog.html''
                                           [(''courses'', courses)]), s))))))"

text \<open>Lines 170 to 176: the labels of the fields that are \<^verbatim>\<open>None\<close> or empty, in this order.\<close>

definition missing_fields :: "pyval \<Rightarrow> pyval \<Rightarrow> pyval \<Rightarrow> string list" where
  "missing_fields course_code course_name instructor =
     (if \<not> truthy course_code then [''Course Code''] else []) @
     (if \<not> truthy course_name then [''Course Name''] else []) @
     (if \<not> truthy instructor then [''Instructor''] else [])"

text \<open>
  The route accepts GET and POST, and Flask adds HEAD; for a method that is neither GET
  nor POST the function falls off its end and returns \<^verbatim>\<open>None\<close>, which Flask refuses with a
  \<^verbatim>\<open>TypeError\<close>.
\<close>

definition add_courses :: "request \<Rightarrow> state \<Rightarrow> (error + response) \<times> state" where
  "add_courses r s =
     (let (current_span, s) = start_as_current_span ''Handling form submissions''
            (\<lambda>current_span s.
               let s = set_attribute current_span ''http.method'' (PStr (request_method r)) s;
                   s = set_attribute current_span ''user.ip'' (opt_str (remote_addr r)) s
               in set_attribute current_span ''route'' (PStr ''/add_courses'') s) s
      in if request_method r = ''GET'' then (Inr (render_template ''add_courses.html'' []), s)
         else if request_method r = ''POST'' then
           (let course_code = form_get r ''course-code'';
                course_name = form_get r ''courseName'';
                instructor = form_get r ''instructor''
            in if \<not> truthy course_code \<or> \<not> truthy course_name \<or> \<not> truthy instructor then
                 (let s = error_counter_add 1
                            [(''route'', PStr ''/add_courses''),
                             (''error_type'', PStr ''missing_fields'')] s;
                      s = logger_error ''Missing required fields''
                            [(''missing_fields'',
                                PList (map PStr (missing_fields course_code course_name instructor))),
                             (''route'', PStr ''/add_courses''),
                             (''method'', PStr (request_method r)),
                             (''user_ip'', opt_str (remote_addr r))] s;
                      s = flash (''Error: Missing required fields: '' @
                                   join '', '' (missing_fields course_code course_name instructor))
                            ''error'' s
                  in (Inr (redirect ''/catalog''), s))
               else
                 (let course = PDict [(''code'', course_code),
                                      (''name'', course_name),
                                      (''instructor'', instructor)]
                  in case save_courses course s of
                       Inl e \<Rightarrow> (Inl e, s)
                     | Inr s \<Rightarrow>
                         (let s = set_attribute current_span ''course.code'' course_code s;
                              s = set_attribute current_span ''course.name'' course_name s;
                              s = set_attribute current_span ''course.instructor'' instructor s;
                              s = logger_info ''Course added successfully''
                                    [(''course_code'', course_code),
                                     (''course_name'', course_name),
                                     (''instructor'', instructor),
                                     (''route'', PStr ''/add_courses''),
                                     (''method'', PStr (request_method r)),
                                     (''user_ip'', opt_str (remote_addr r))] s;
                              s = flash ''Course added successfully!'' ''success'' s
                          in (Inr (redirect ''/catalog''), s))))
         else (Inl TypeError, s))"

text \<open>
  \<^verbatim>\<open>next((course for course in courses if course['code'] == code), None)\<close>: the generator
  is consumed up to the first match, so an item after it is never subscripted.
\<close>

fun next_course :: "pyval list \<Rightarrow> string \<Rightarrow> error + pyval" where
  "next_course [] code = Inr PNone"
| "next_course (course # rest) code =
     (case getitem course ''code'' of
        Inl e \<Rightarrow> Inl e
      | Inr v \<Rightarrow> if v = PStr code then Inr course else next_course rest code)"

definition course_details :: "string \<Rightarrow> request \<Rightarrow> state \<Rightarrow> (error + response) \<times> state" where
  "course_details code r s =
     (let (current_span, s) = start_as_current_span ''Rendering Course Details''
            (\<lambda>current_span s.
               let s = set_attribute current_span ''http.method'' (PStr (request_method r)) s;
                   s = set_attribute current_span ''user.ip'' (opt_str (remote_addr r)) s;
                   s = set_attribute current_span ''route'' (PStr (''/course/'' @ code)) s;
                   s = set_attribute current_span ''course.code'' (PStr code) s
               in logger_info (''Successfully rendered Course Details for '' @ code)
                    [(''course_code'', PStr code),
                     (''route'', PStr (''/course/'' @ code)),
                     (''method'', PStr (request_method r)),
                     (''user_ip'', opt_str (remote_addr r))] s) s
      in case load_courses s of
           Inl e \<Rightarrow> (Inl e, s)
         | Inr courses \<Rightarrow>
             (case iter courses of
                Inl e \<Rightarrow> (Inl e, s)
              | Inr items \<Rightarrow>
                  (case next_course items code of
                     Inl e \<Rightarrow> (Inl e, s)
                   | Inr course \<Rightarrow>
                       if \<not> truthy course then
                         (let s = set_attribute current_span ''error'' (PBool True) s;
                              s = logger_error (''No course found with code: '' @ code)
                                    [(''course_code'', PStr code),
                                     (''route'', PStr (''/course/'' @ code)),
                                     (''method'', PStr (request_method r)),
                                     (''user_ip'', opt_str (remote_addr r))] s;
                              s = flash (''No course found with code '' @ [CHR 0x27] @ code @
                                           [CHR 0x27] @ ''.'') ''error'' s
                          in (Inr (redirect ''/catalog''), s))
                       else (Inr (render_template ''course_details.html''
                                    [(''course'', course)]), s))))"

section \<open>Routing and the request cycle\<close>

text \<open>
  The URL rules declared in \<^verbatim>\<open>app.py\<close>. A rule registered for GET also answers HEAD, and
  OPTIONS is answered by Flask itself without calling the view. The \<^verbatim>\<open><code>\<close> segment is
  a non-empty string without a slash. Every other path is answered 404 and a method the
  rule does not list 405; both are HTTP exceptions, which Flask turns into responses.
  Flask's own rule for static files and the spans that \<^verbatim>\<open>FlaskInstrumentor\<close> adds around a
  request are outside the model: it follows the tracer calls that \<^verbatim>\<open>app.py\<close> makes itself.
\<close>

datatype endpoint = Index | Course_catalog | Add_courses | Course_details string

definition match_path :: "string \<Rightarrow> endpoint option" where
  "match_path p =
     (if p = ''/'' then Some Index
      else if p = ''/catalog'' then Some Course_catalog
      else if p = ''/add_courses'' then Some Add_courses
      else if take 8 p = ''/course/'' \<and> drop 8 p \<noteq> [] \<and> CHR ''/'' \<notin> set (drop 8 p)
      then Some (Course_details (drop 8 p))
      else None)"

fun allowed_methods :: "endpoint \<Rightarrow> string list" where
  "allowed_methods Add_courses = [''GET'', ''POST'', ''HEAD'', ''OPTIONS'']"
| "allowed_methods Index = [''GET'', ''HEAD'', ''OPTIONS'']"
| "allowed_methods Course_catalog = [''GET'', ''HEAD'', ''OPTIONS'']"
| "allowed_methods (Course_details code) = [''GET'', ''HEAD'', ''OPTIONS'']"

fun view :: "endpoint \<Rightarrow> request \<Rightarrow> state \<Rightarrow> (error + response) \<times> state" where
  "view Index r s = index r s"
| "view Course_catalog r s = course_catalog r s"
| "view Add_courses r s = add_courses r s"
| "view (Course_details code) r s = course_details code r s"

definition dispatch_request :: "request \<Rightarrow> state \<Rightarrow> (error + response) \<times> state" where
  "dispatch_request r s =
     (case match_path (path r) of
        None \<Rightarrow> (Inl (HTTPException 404), s)
      | Some ep \<Rightarrow>
          if request_method r \<notin> set (allowed_methods ep) then (Inl (HTTPException 405), s)
          else if request_method r = ''OPTIONS'' then (Inr \<lparr>status_code = 200, content = Other\<rparr>, s)
          else view ep r s)"

text \<open>
  One request through \<^verbatim>\<open>Flask.wsgi_app\<close>. The \<^verbatim>\<open>before_request\<close> hook runs, then the view.
  A response, and an HTTP exception turned into one, go through the \<^verbatim>\<open>after_request\<close> hook.
  Any other exception has no handler registered and reaches \<^verbatim>\<open>Flask.handle_exception\<close>:
  with \<^verbatim>\<open>PROPAGATE_EXCEPTIONS\<close> in force (the default in debug and testing mode) it is
  re-raised to the server and the \<^verbatim>\<open>after_request\<close> hook is not run; otherwise Flask logs
  the exception, builds a 500 response, and sends that through the hook. \<open>t0\<close> and \<open>t1\<close>
  are the clock readings of the two hooks.

  \<^verbatim>\<open>Flask.log_exception\<close> writes an ERROR record to \<^verbatim>\<open>app.logger\<close>, the logger named after
  the application. Without debug mode the program is loaded as the module \<^verbatim>\<open>app\<close>, so that
  logger is the one \<^verbatim>\<open>app.py\<close> obtains by \<^verbatim>\<open>logging.getLogger(__name__)\<close> and the record is
  emitted by the same handler as the program's own records.
\<close>

definition finalize_request ::
    "real \<Rightarrow> request \<Rightarrow> request_local \<Rightarrow> response \<Rightarrow> state \<Rightarrow> (error + response) \<times> state" where
  "finalize_request t1 r loc resp s =
     (let (resp, s) = after_request t1 r loc resp s in (Inr resp, s))"

definition log_exception :: "request \<Rightarrow> state \<Rightarrow> state" where
  "log_exception r s =
     logger_error (''Exception on '' @ path r @ '' ['' @ request_method r @ '']'') [] s"

definition handle_exception ::
    "bool \<Rightarrow> real \<Rightarrow> request \<Rightarrow> request_local \<Rightarrow> error \<Rightarrow> state \<Rightarrow> (error + response) \<times> state" where
  "handle_exception propagate_exceptions t1 r loc e s =
     (if propagate_exceptions then (Inl e, s)
      else (let s = log_exception r s
            in finalize_request t1 r loc \<lparr>status_code = 500, content = Other\<rparr> s))"

definition wsgi_app ::
    "bool \<Rightarrow> real \<Rightarrow> real \<Rightarrow> request \<Rightarrow> state \<Rightarrow> (error + response) \<times> state" where
  "wsgi_app propagate_exceptions t0 t1 r s =
     (let (loc, s) = before_request t0 r s;
          (rv, s) = dispatch_request r s
      in case rv of
           Inr resp \<Rightarrow> finalize_request t1 r loc resp s
         | Inl e \<Rightarrow>
             (case e of
                HTTPException c \<Rightarrow>
                  finalize_request t1 r loc \<lparr>status_code = c, content = Other\<rparr> s
              | JSONDecodeError \<Rightarrow> handle_exception propagate_exceptions t1 r loc e s
              | AttributeError \<Rightarrow> handle_exception propagate_exceptions t1 r loc e s
              | KeyError \<Rightarrow> handle_exception propagate_exceptions t1 r loc e s
              | TypeError \<Rightarrow> handle_exception propagate_exceptions t1 r loc e s))"

text \<open>\<^verbatim>\<open>app.run(debug=True)\<close>: the program starts the server in debug mode.\<close>

definition debug :: bool where
  "debug = True"

text \<open>Inputs for concrete runs: a process that has handled nothing yet, and a local request.\<close>

definition initial_state :: "file_content option \<Rightarrow> state" where
  "initial_state f =
     \<lparr>course_file = f, spans = [], route_request_counter = [], route_processing_time = [],
      error_counter = [], logger = [], flashes = []\<rparr>"

definition http_request :: "string \<Rightarrow> string \<Rightarrow> (string \<times> string) list \<Rightarrow> request" where
  "http_request m p f =
     \<lparr>request_method = m, path = p, url = ''http://localhost:5000'' @ p,
      remote_addr = Some ''127.0.0.1'', form = f\<rparr>"

text \<open>
  The dict that \<^verbatim>\<open>add_courses\<close> builds (lines 188 to 192) when the three form fields are the
  given strings. A stored collection of well-formed records is a list of such dicts.
\<close>

definition course_dict :: "string \<Rightarrow> string \<Rightarrow> string \<Rightarrow> pyval" where
  "course_dict c n i = PDict [(''code'', PStr c), (''name'', PStr n), (''instructor'', PStr i)]"

section \<open>Symbolic execution of the hooks and the views\<close>

lemmas prim_defs = set_attribute_def end_span_def route_request_counter_add_def
  route_processing_time_record_def error_counter_add_def logger_info_def logger_error_def flash_def

lemma set_attribute_ended:
  "sp_ended (spans s ! sid) \<Longrightarrow> set_attribute sid k v s = s"
  by (simp add: set_attribute_def)

lemma index_block:
  "start_as_current_span ''Rendering Home Page''
     (\<lambda>current_span s.
        let s = set_attribute current_span ''http.method'' (PStr (request_method r)) s;
            s = set_attribute current_span ''user.ip'' (opt_str (remote_addr r)) s;
            s = set_attribute current_span ''route'' (PStr ''/'') s
        in logger_info ''Successfully rendered the Home Page''
             [(''route'', PStr ''/''),
              (''method'', PStr (request_method r)),
              (''user_ip'', opt_str (remote_addr r))] s) s =
   (length (spans s),
    s\<lparr>spans := spans s @
         [\<lparr>sp_name = ''Rendering Home Page'',
           sp_attributes = [(''http.method'', PStr (request_method r)),
                            (''user.ip'', opt_str (remote_addr r)),
                            (''route'', PStr ''/'')],
           sp_ended = True\<rparr>],
       logger := logger s @
         [\<lparr>levelname = INFO, message = ''Successfully rendered the Home Page'',
           extra = [(''route'', PStr ''/''),
                    (''method'', PStr (request_method r)),
                    (''user_ip'', opt_str (remote_addr r))]\<rparr>]\<rparr>)"
  apply (simp only: start_as_current_span_def start_span_def Let_def prod.case)
  apply (simp add: prim_defs)
  done

lemma catalog_block:
  "start_as_current_span ''Rendering Course Catalog''
     (\<lambda>current_span s.
        let s = set_attribute current_span ''http.method'' (PStr (request_method r)) s;
            s = set_attribute current_span ''user.ip'' (opt_str (remote_addr r)) s;
            s = set_attribute current_span ''route'' (PStr ''/catalog'') s
        in logger_info ''Successfully rendered the Course Catalog Page''
             [(''route'', PStr ''/catalog''),
              (''method'', PStr (request_method r)),
              (''user_ip'', opt_str (remote_addr r))] s) s =
   (length (spans s),
    s\<lparr>spans := spans s @
         [\<lparr>sp_name = ''Rendering Course Catalog'',
           sp_attributes = [(''http.method'', PStr (request_method r)),
                            (''user.ip'', opt_str (remote_addr r)),
                            (''route'', PStr ''/catalog'')],
           sp_ended = True\<rparr>],
       logger := logger s @
         [\<lparr>levelname = INFO, message = ''Successfully rendered the Course Catalog Page'',
           extra = [(''route'', PStr ''/catalog''),
                    (''method'', PStr (request_method r)),
                    (''user_ip'', opt_str (remote_addr r))]\<rparr>]\<rparr>)"
  apply (simp only: start_as_current_span_def start_span_def Let_def prod.case)
  apply (simp add: prim_defs)
  done

lemma add_courses_block:
  "start_as_current_span ''Handling form submissions''
     (\<lambda>current_span s.
        let s = set_attribute current_span ''http.method'' (PStr (request_method r)) s;
            s = set_attribute current_span ''user.ip'' (opt_str (remote_addr r)) s
        in set_attribute current_span ''route'' (PStr ''/add_courses'') s) s =
   (length (spans s),
    s\<lparr>spans := spans s @
         [\<lparr>sp_name = ''Handling form submissions'',
           sp_attributes = [(''http.method'', PStr (request_method r)),
                            (''user.ip'', opt_str (remote_addr r)),
                            (''route'', PStr ''/add_courses'')],
           sp_ended = True\<rparr>]\<rparr>)"
  apply (simp only: start_as_current_span_def start_span_def Let_def prod.case)
  apply (simp add: prim_defs)
  done

lemma details_block:
  "start_as_current_span ''Rendering Course Details''
     (\<lambda>current_span s.
        let s = set_attribute current_span ''http.method'' (PStr (request_method r)) s;
            s = set_attribute current_span ''user.ip'' (opt_str (remote_addr r)) s;
            s = set_attribute current_span ''route'' (PStr (''/course/'' @ code)) s;
            s = set_attribute current_span ''course.code'' (PStr code) s
        in logger_info (''Successfully rendered Course Details for '' @ code)
             [(''course_code'', PStr code),
              (''route'', PStr (''/course/'' @ code)),
              (''method'', PStr (request_method r)),
              (''user_ip'', opt_str (remote_addr r))] s) s =
   (length (spans s),
    s\<lparr>spans := spans s @
         [\<lparr>sp_name = ''Rendering Course Details'',
           sp_attributes = [(''http.method'', PStr (request_method r)),
                            (''user.ip'', opt_str (remote_addr r)),
                            (''route'', PStr (''/course/'' @ code)),
                            (''course.code'', PStr code)],
           sp_ended = True\<rparr>],
       logger := logger s @
         [\<lparr>levelname = INFO, message = ''Successfully rendered Course Details for '' @ code,
           extra = [(''course_code'', PStr code),
                    (''route'', PStr (''/course/'' @ code)),
                    (''method'', PStr (request_method r)),
                    (''user_ip'', opt_str (remote_addr r))]\<rparr>]\<rparr>)"
  apply (simp only: start_as_current_span_def start_span_def Let_def prod.case)
  apply (simp add: prim_defs)
  done


lemma load_courses_frame:
  "load_courses (s\<lparr>spans := a\<rparr>) = load_courses s"
  "load_courses (s\<lparr>logger := b\<rparr>) = load_courses s"
  "load_courses (s\<lparr>flashes := c\<rparr>) = load_courses s"
  "load_courses (s\<lparr>error_counter := d\<rparr>) = load_courses s"
  "load_courses (s\<lparr>route_request_counter := e\<rparr>) = load_courses s"
  "load_courses (s\<lparr>route_processing_time := f\<rparr>) = load_courses s"
  by (simp_all add: load_courses_def)

lemma index_eq:
  "index r s =
     (Inr (render_template ''index.html'' []),
      s\<lparr>spans := spans s @
           [\<lparr>sp_name = ''Rendering Home Page'',
             sp_attributes = [(''http.method'', PStr (request_method r)),
                              (''user.ip'', opt_str (remote_addr r)),
                              (''route'', PStr ''/'')],
             sp_ended = True\<rparr>],
         logger := logger s @
           [\<lparr>levelname = INFO, message = ''Successfully rendered the Home Page'',
             extra = [(''route'', PStr ''/''),
                      (''method'', PStr (request_method r)),
                      (''user_ip'', opt_str (remote_addr r))]\<rparr>]\<rparr>)"
  unfolding index_def index_block by simp

lemma course_catalog_eq:
  "course_catalog r s =
     (case load_courses s of
        Inl e \<Rightarrow> Inl e
      | Inr courses \<Rightarrow>
          (case len courses of
             Inl e \<Rightarrow> Inl e
           | Inr n \<Rightarrow>
               (case iter courses of
                  Inl e \<Rightarrow> Inl e
                | Inr items \<Rightarrow>
                    (case course_names items of
                       Inl e \<Rightarrow> Inl e
                     | Inr names \<Rightarrow>
                         Inr (render_template ''course_catalog.html'' [(''courses'', courses)])))),
      s\<lparr>spans := spans s @
           [\<lparr>sp_name = ''Rendering Course Catalog'',
             sp_attributes = [(''http.method'', PStr (request_method r)),
                              (''user.ip'', opt_str (remote_addr r)),
                              (''route'', PStr ''/catalog'')],
             sp_ended = True\<rparr>],
         logger := logger s @
           [\<lparr>levelname = INFO, message = ''Successfully rendered the Course Catalog Page'',
             extra = [(''route'', PStr ''/catalog''),
                      (''method'', PStr (request_method r)),
                      (''user_ip'', opt_str (remote_addr r))]\<rparr>]\<rparr>)"
  unfolding course_catalog_def catalog_block
  by (simp add: Let_def set_attribute_ended load_courses_frame split: sum.splits)

lemma save_courses_spans:
  "save_courses d (s\<lparr>spans := xs\<rparr>) =
     (case save_courses d s of Inl e \<Rightarrow> Inl e | Inr s' \<Rightarrow> Inr (s'\<lparr>spans := xs\<rparr>))"
  by (simp add: save_courses_def load_courses_def
           split: option.splits file_content.splits pyval.splits)

lemma save_courses_Inr:
  "save_courses d s = Inr s' \<Longrightarrow>
     \<exists>xs. load_courses s = Inr (PList xs) \<and> s' = s\<lparr>course_file := Some (JSON (PList (xs @ [d])))\<rparr>"
  by (auto simp add: save_courses_def split: sum.splits pyval.splits)

lemma save_courses_ok:
  "load_courses s = Inr (PList xs) \<Longrightarrow>
   save_courses d s = Inr (s\<lparr>course_file := Some (JSON (PList (xs @ [d])))\<rparr>)"
  by (simp add: save_courses_def)

lemma add_courses_GET:
  "request_method r = ''GET'' \<Longrightarrow>
   add_courses r s =
     (Inr (render_template ''add_courses.html'' []),
      s\<lparr>spans := spans s @
           [\<lparr>sp_name = ''Handling form submissions'',
             sp_attributes = [(''http.method'', PStr (request_method r)),
                              (''user.ip'', opt_str (remote_addr r)),
                              (''route'', PStr ''/add_courses'')],
             sp_ended = True\<rparr>]\<rparr>)"
  unfolding add_courses_def add_courses_block by simp

lemma add_courses_other:
  "request_method r \<noteq> ''GET'' \<Longrightarrow> request_method r \<noteq> ''POST'' \<Longrightarrow>
   add_courses r s =
     (Inl TypeError,
      s\<lparr>spans := spans s @
           [\<lparr>sp_name = ''Handling form submissions'',
             sp_attributes = [(''http.method'', PStr (request_method r)),
                              (''user.ip'', opt_str (remote_addr r)),
                              (''route'', PStr ''/add_courses'')],
             sp_ended = True\<rparr>]\<rparr>)"
  unfolding add_courses_def add_courses_block by simp

lemma add_courses_invalid:
  "request_method r = ''POST'' \<Longrightarrow>
   \<not> truthy (form_get r ''course-code'') \<or> \<not> truthy (form_get r ''courseName'')
     \<or> \<not> truthy (form_get r ''instructor'') \<Longrightarrow>
   add_courses r s =
     (Inr (redirect ''/catalog''),
      s\<lparr>spans := spans s @
           [\<lparr>sp_name = ''Handling form submissions'',
             sp_attributes = [(''http.method'', PStr (request_method r)),
                              (''user.ip'', opt_str (remote_addr r)),
                              (''route'', PStr ''/add_courses'')],
             sp_ended = True\<rparr>],
         error_counter := error_counter s @
           [(1, [(''route'', PStr ''/add_courses''), (''error_type'', PStr ''missing_fields'')])],
         logger := logger s @
           [\<lparr>levelname = ERROR, message = ''Missing required fields'',
             extra = [(''missing_fields'',
                         PList (map PStr (missing_fields (form_get r ''course-code'')
                            (form_get r ''courseName'') (form_get r ''instructor'')))),
                      (''route'', PStr ''/add_courses''),
                      (''method'', PStr (request_method r)),
                      (''user_ip'', opt_str (remote_addr r))]\<rparr>],
         flashes := flashes s @
           [(''error'', ''Error: Missing required fields: '' @
               join '', '' (missing_fields (form_get r ''course-code'')
                 (form_get r ''courseName'') (form_get r ''instructor'')))]\<rparr>)"
  unfolding add_courses_def add_courses_block
  by (simp add: Let_def prim_defs)

lemma add_courses_valid:
  "request_method r = ''POST'' \<Longrightarrow>
   truthy (form_get r ''course-code'') \<Longrightarrow> truthy (form_get r ''courseName'') \<Longrightarrow>
   truthy (form_get r ''instructor'') \<Longrightarrow>
   load_courses s = Inr (PList xs) \<Longrightarrow>
   add_courses r s =
     (Inr (redirect ''/catalog''),
      s\<lparr>course_file := Some (JSON (PList (xs @
            [PDict [(''code'', form_get r ''course-code''),
                    (''name'', form_get r ''courseName''),
                    (''instructor'', form_get r ''instructor'')]]))),
         spans := spans s @
           [\<lparr>sp_name = ''Handling form submissions'',
             sp_attributes = [(''http.method'', PStr (request_method r)),
                              (''user.ip'', opt_str (remote_addr r)),
                              (''route'', PStr ''/add_courses'')],
             sp_ended = True\<rparr>],
         logger := logger s @
           [\<lparr>levelname = INFO, message = ''Course added successfully'',
             extra = [(''course_code'', form_get r ''course-code''),
                      (''course_name'', form_get r ''courseName''),
                      (''instructor'', form_get r ''instructor''),
                      (''route'', PStr ''/add_courses''),
                      (''method'', PStr (request_method r)),
                      (''user_ip'', opt_str (remote_addr r))]\<rparr>],
         flashes := flashes s @ [(''success'', ''Course added successfully!'')]\<rparr>)"
  unfolding add_courses_def add_courses_block
  by (simp add: Let_def save_courses_spans save_courses_ok set_attribute_ended
        logger_info_def flash_def)

lemma add_courses_save_fails:
  "request_method r = ''POST'' \<Longrightarrow>
   truthy (form_get r ''course-code'') \<Longrightarrow> truthy (form_get r ''courseName'') \<Longrightarrow>
   truthy (form_get r ''instructor'') \<Longrightarrow>
   save_courses (PDict [(''code'', form_get r ''course-code''),
                    (''name'', form_get r ''courseName''),
                    (''instructor'', form_get r ''instructor'')]) s = Inl e \<Longrightarrow>
   add_courses r s =
     (Inl e,
      s\<lparr>spans := spans s @
           [\<lparr>sp_name = ''Handling form submissions'',
             sp_attributes = [(''http.method'', PStr (request_method r)),
                              (''user.ip'', opt_str (remote_addr r)),
                              (''route'', PStr ''/add_courses'')],
             sp_ended = True\<rparr>]\<rparr>)"
  unfolding add_courses_def add_courses_block
  by (simp add: Let_def save_courses_spans)

lemma course_details_eq:
  "course_details code r s =
     (let s1 = s\<lparr>spans := spans s @
                  [\<lparr>sp_name = ''Rendering Course Details'',
                    sp_attributes = [(''http.method'', PStr (request_method r)),
                                     (''user.ip'', opt_str (remote_addr r)),
                                     (''route'', PStr (''/course/'' @ code)),
                                     (''course.code'', PStr code)],
                    sp_ended = True\<rparr>],
                logger := logger s @
                  [\<lparr>levelname = INFO,
                    message = ''Successfully rendered Course Details for '' @ code,
                    extra = [(''course_code'', PStr code),
                             (''route'', PStr (''/course/'' @ code)),
                             (''method'', PStr (request_method r)),
                             (''user_ip'', opt_str (remote_addr r))]\<rparr>]\<rparr>
      in case load_courses s of
           Inl e \<Rightarrow> (Inl e, s1)
         | Inr courses \<Rightarrow>
             (case iter courses of
                Inl e \<Rightarrow> (Inl e, s1)
              | Inr items \<Rightarrow>
                  (case next_course items code of
                     Inl e \<Rightarrow> (Inl e, s1)
                   | Inr course \<Rightarrow>
                       if \<not> truthy course then
                         (Inr (redirect ''/catalog''),
                          s1\<lparr>logger := logger s1 @
                                [\<lparr>levelname = ERROR,
                                  message = ''No course found with code: '' @ code,
                                  extra = [(''course_code'', PStr code),
                                           (''route'', PStr (''/course/'' @ code)),
                                           (''method'', PStr (request_method r)),
                                           (''user_ip'', opt_str (remote_addr r))]\<rparr>],
                              flashes := flashes s @
                                [(''error'', ''No course found with code '' @ [CHR 0x27] @ code @
                                           [CHR 0x27] @ ''.'')]\<rparr>)
                       else (Inr (render_template ''course_details.html''
                                    [(''course'', course)]), s1))))"
  unfolding course_details_def details_block
  by (simp add: Let_def set_attribute_ended load_courses_frame logger_error_def flash_def
           split: sum.splits)


lemma before_request_eq:
  "before_request now r s =
     (\<lparr>start_time = now, request_span = length (spans s)\<rparr>,
      s\<lparr>spans := spans s @
           [\<lparr>sp_name = request_method r @ '' '' @ path r,
             sp_attributes = [(''http.method'', PStr (request_method r)), (''http.url'', PStr (url r))],
             sp_ended = False\<rparr>]\<rparr>)"
  by (simp add: before_request_def start_span_def)

lemma after_request_eq:
  assumes "spans s = xs @ sp # ys" and "\<not> sp_ended sp" and "request_span loc = length xs"
  shows "after_request now r loc resp s =
     (resp,
      s\<lparr>spans := xs @
           sp\<lparr>sp_attributes :=
                 (if 400 \<le> status_code resp
                  then AList.update ''error'' (PBool True)
                         (AList.update ''http.status_code'' (PInt (status_code resp))
                            (sp_attributes sp))
                  else AList.update ''http.status_code'' (PInt (status_code resp))
                         (sp_attributes sp)),
               sp_ended := True\<rparr> # ys,
         route_request_counter := route_request_counter s @
           [(1, [(''route'', PStr (path r)), (''method'', PStr (request_method r))])],
         route_processing_time := route_processing_time s @
           [((now - start_time loc) * 1000,
             [(''route'', PStr (path r)), (''method'', PStr (request_method r))])],
         error_counter := error_counter s @
           (if 400 \<le> status_code resp
            then [(1, [(''route'', PStr (path r)), (''method'', PStr (request_method r))])] else []),
         logger := logger s @
           [\<lparr>levelname = INFO, message = ''Request processed'',
             extra = [(''method'', PStr (request_method r)),
                      (''path'', PStr (path r)),
                      (''status_code'', PInt (status_code resp)),
                      (''user_ip'', opt_str (remote_addr r)),
                      (''processing_time_ms'', PFloat ((now - start_time loc) * 1000))]\<rparr>]\<rparr>)"
  unfolding after_request_def Let_def
  using assms by (simp add: prim_defs)


subsection \<open>What a view leaves alone\<close>

lemma index_frame:
  "take (length (spans s)) (spans (snd (index r s))) = spans s \<and>
   list_all sp_ended (drop (length (spans s)) (spans (snd (index r s)))) \<and>
   route_request_counter (snd (index r s)) = route_request_counter s \<and>
   route_processing_time (snd (index r s)) = route_processing_time s \<and>
   filter (\<lambda>l. message l = ''Request processed'') (logger (snd (index r s))) =
     filter (\<lambda>l. message l = ''Request processed'') (logger s)"
  by (simp add: index_eq)

lemma course_catalog_frame:
  "take (length (spans s)) (spans (snd (course_catalog r s))) = spans s \<and>
   list_all sp_ended (drop (length (spans s)) (spans (snd (course_catalog r s)))) \<and>
   route_request_counter (snd (course_catalog r s)) = route_request_counter s \<and>
   route_processing_time (snd (course_catalog r s)) = route_processing_time s \<and>
   filter (\<lambda>l. message l = ''Request processed'') (logger (snd (course_catalog r s))) =
     filter (\<lambda>l. message l = ''Request processed'') (logger s)"
  by (simp add: course_catalog_eq)

lemma course_details_frame:
  "take (length (spans s)) (spans (snd (course_details code r s))) = spans s \<and>
   list_all sp_ended (drop (length (spans s)) (spans (snd (course_details code r s)))) \<and>
   route_request_counter (snd (course_details code r s)) = route_request_counter s \<and>
   route_processing_time (snd (course_details code r s)) = route_processing_time s \<and>
   filter (\<lambda>l. message l = ''Request processed'') (logger (snd (course_details code r s))) =
     filter (\<lambda>l. message l = ''Request processed'') (logger s)"
  by (simp add: course_details_eq Let_def split: sum.splits)

lemma add_courses_frame:
  "take (length (spans s)) (spans (snd (add_courses r s))) = spans s \<and>
   list_all sp_ended (drop (length (spans s)) (spans (snd (add_courses r s)))) \<and>
   route_request_counter (snd (add_courses r s)) = route_request_counter s \<and>
   route_processing_time (snd (add_courses r s)) = route_processing_time s \<and>
   filter (\<lambda>l. message l = ''Request processed'') (logger (snd (add_courses r s))) =
     filter (\<lambda>l. message l = ''Request processed'') (logger s)"
proof (cases "request_method r = ''GET''")
  case True
  then show ?thesis by (simp add: add_courses_GET)
next
  case notget: False
  show ?thesis
  proof (cases "request_method r = ''POST''")
    case False
    with notget show ?thesis by (simp add: add_courses_other)
  next
    case post: True
    show ?thesis
    proof (cases "truthy (form_get r ''course-code'') \<and> truthy (form_get r ''courseName'')
                    \<and> truthy (form_get r ''instructor'')")
      case False
      then have "\<not> truthy (form_get r ''course-code'') \<or> \<not> truthy (form_get r ''courseName'')
                   \<or> \<not> truthy (form_get r ''instructor'')" by blast
      from add_courses_invalid [OF post this] show ?thesis by simp
    next
      case valid: True
      show ?thesis
      proof (cases "save_courses (PDict [(''code'', form_get r ''course-code''),
                    (''name'', form_get r ''courseName''),
                    (''instructor'', form_get r ''instructor'')]) s")
        case (Inl e)
        with post valid show ?thesis by (simp add: add_courses_save_fails)
      next
        case (Inr s')
        from save_courses_Inr [OF Inr] obtain xs where "load_courses s = Inr (PList xs)"
          by blast
        with post valid show ?thesis by (simp add: add_courses_valid)
      qed
    qed
  qed
qed

lemma view_frame:
  "take (length (spans s)) (spans (snd (view ep r s))) = spans s \<and>
   list_all sp_ended (drop (length (spans s)) (spans (snd (view ep r s)))) \<and>
   route_request_counter (snd (view ep r s)) = route_request_counter s \<and>
   route_processing_time (snd (view ep r s)) = route_processing_time s \<and>
   filter (\<lambda>l. message l = ''Request processed'') (logger (snd (view ep r s))) =
     filter (\<lambda>l. message l = ''Request processed'') (logger s)"
proof (cases ep)
  case Index
  then show ?thesis using index_frame [of s r] by simp
next
  case Course_catalog
  then show ?thesis using course_catalog_frame [of s r] by simp
next
  case Add_courses
  then show ?thesis using add_courses_frame [of s r] by simp
next
  case (Course_details code)
  then show ?thesis using course_details_frame [of s code r] by simp
qed

lemma dispatch_request_frame:
  "take (length (spans s)) (spans (snd (dispatch_request r s))) = spans s \<and>
   list_all sp_ended (drop (length (spans s)) (spans (snd (dispatch_request r s)))) \<and>
   route_request_counter (snd (dispatch_request r s)) = route_request_counter s \<and>
   route_processing_time (snd (dispatch_request r s)) = route_processing_time s \<and>
   filter (\<lambda>l. message l = ''Request processed'') (logger (snd (dispatch_request r s))) =
     filter (\<lambda>l. message l = ''Request processed'') (logger s)"
proof (cases "match_path (path r)")
  case None
  then show ?thesis by (simp add: dispatch_request_def)
next
  case (Some ep)
  show ?thesis
  proof (cases "request_method r \<notin> set (allowed_methods ep) \<or> request_method r = ''OPTIONS''")
    case True
    with Some show ?thesis by (auto simp add: dispatch_request_def)
  next
    case False
    with Some have "dispatch_request r s = view ep r s"
      by (simp add: dispatch_request_def)
    then show ?thesis using view_frame [of s ep r] by simp
  qed
qed


subsection \<open>The request cycle\<close>

lemma after_request_fst: "fst (after_request now r loc resp s) = resp"
  by (simp add: after_request_def Let_def)

lemma prim_course_file:
  "course_file (set_attribute sid k v s) = course_file s"
  "course_file (end_span sid s) = course_file s"
  "course_file (route_request_counter_add n a s) = course_file s"
  "course_file (route_processing_time_record d a s) = course_file s"
  "course_file (error_counter_add n a s) = course_file s"
  "course_file (logger_info m e s) = course_file s"
  by (simp_all add: prim_defs)

lemma after_request_course_file:
  "course_file (snd (after_request now r loc resp s)) = course_file s"
  unfolding after_request_def Let_def
  by (simp add: prim_course_file)

lemma log_exception_eq:
  "log_exception r s =
     s\<lparr>logger := logger s @
          [\<lparr>levelname = ERROR,
            message = ''Exception on '' @ path r @ '' ['' @ request_method r @ '']'',
            extra = []\<rparr>]\<rparr>"
  by (simp add: log_exception_def logger_error_def)

lemma wsgi_app_course_file:
  "course_file (snd (wsgi_app pe t0 t1 r s)) =
     course_file (snd (dispatch_request r (snd (before_request t0 r s))))"
  unfolding wsgi_app_def finalize_request_def handle_exception_def
  by (simp add: case_prod_beta Let_def after_request_course_file log_exception_eq
           split: sum.splits error.splits)

lemma finalize_request_eq:
  "finalize_request t1 r loc x s = (Inr x, snd (after_request t1 r loc x s))"
  by (simp add: finalize_request_def case_prod_beta after_request_fst)

lemma wsgi_app_unfold:
  "wsgi_app pe t0 t1 r s =
     (case fst (dispatch_request r (snd (before_request t0 r s))) of
        Inr resp \<Rightarrow>
          finalize_request t1 r \<lparr>start_time = t0, request_span = length (spans s)\<rparr> resp
            (snd (dispatch_request r (snd (before_request t0 r s))))
      | Inl e \<Rightarrow>
          (case e of
             HTTPException c \<Rightarrow>
               finalize_request t1 r \<lparr>start_time = t0, request_span = length (spans s)\<rparr>
                 \<lparr>status_code = c, content = Other\<rparr>
                 (snd (dispatch_request r (snd (before_request t0 r s))))
           | _ \<Rightarrow>
               if pe then (Inl e, snd (dispatch_request r (snd (before_request t0 r s))))
               else finalize_request t1 r \<lparr>start_time = t0, request_span = length (spans s)\<rparr>
                      \<lparr>status_code = 500, content = Other\<rparr>
                      (log_exception r
                         (snd (dispatch_request r (snd (before_request t0 r s)))))))"
  unfolding wsgi_app_def handle_exception_def
  by (simp add: case_prod_beta Let_def before_request_eq split: sum.splits error.splits)

lemma wsgi_app_Inr:
  assumes "wsgi_app pe t0 t1 r s = (Inr resp, s')"
  shows "s' = snd (after_request t1 r \<lparr>start_time = t0, request_span = length (spans s)\<rparr> resp
           ((snd (dispatch_request r (snd (before_request t0 r s))))
              \<lparr>logger := logger (snd (dispatch_request r (snd (before_request t0 r s)))) @
                 (case fst (dispatch_request r (snd (before_request t0 r s))) of
                    Inr x \<Rightarrow> []
                  | Inl e \<Rightarrow>
                      (case e of
                         HTTPException c \<Rightarrow> []
                       | _ \<Rightarrow>
                           [\<lparr>levelname = ERROR,
                             message = ''Exception on '' @ path r @ '' ['' @
                                       request_method r @ '']'',
                             extra = []\<rparr>]))\<rparr>))"
  using assms unfolding wsgi_app_unfold finalize_request_eq log_exception_eq
  by (auto split: sum.splits error.splits if_splits)

lemma wsgi_app_total:
  "\<exists>resp s'. wsgi_app False t0 t1 r s = (Inr resp, s')"
  unfolding wsgi_app_unfold finalize_request_eq
  by (simp split: sum.splits error.splits)

section \<open>The course store\<close>

text \<open>
  Claim C3, as the code has it. \<^verbatim>\<open>load_courses\<close> returns the empty list when the backing file
  does not exist. When the file exists and holds a JSON document, it returns the parsed
  value whatever its shape, array or not: nothing checks that the document is an array.
  It fails, with the decoder's error, exactly when the file's text is not JSON.
\<close>

theorem load_courses_cases:
  "(course_file s = None \<longrightarrow> load_courses s = Inr (PList [])) \<and>
   (course_file s = Some NotJSON \<longrightarrow> load_courses s = Inl JSONDecodeError) \<and>
   (\<forall>v. course_file s = Some (JSON v) \<longrightarrow> load_courses s = Inr v) \<and>
   ((\<exists>e. load_courses s = Inl e) = (course_file s = Some NotJSON))"
  by (auto simp add: load_courses_def split: option.splits file_content.splits)

text \<open>The three cases at concrete files: none, one that is not JSON, one holding an array.\<close>

theorem load_courses_cases_witness:
  "load_courses (initial_state None) = Inr (PList []) \<and>
   load_courses (initial_state (Some NotJSON)) = Inl JSONDecodeError \<and>
   load_courses (initial_state (Some (JSON (PList [course_dict ''CS203'' ''Systems'' ''Dr. Y''])))) =
     Inr (PList [course_dict ''CS203'' ''Systems'' ''Dr. Y''])"
  using load_courses_cases [of "initial_state None"]
    load_courses_cases [of "initial_state (Some NotJSON)"]
    load_courses_cases [of "initial_state (Some (JSON (PList [course_dict ''CS203'' ''Systems'' ''Dr. Y''])))"]
  by (simp add: initial_state_def)

text \<open>
  Claim C3 as stated fails: a file holding the JSON object \<^verbatim>\<open>{"code": "CS203"}\<close> is valid JSON
  and not an array, and \<^verbatim>\<open>load_courses\<close> returns the dict instead of failing.
\<close>

theorem load_courses_non_array_counterexample:
  "load_courses (initial_state (Some (JSON (PDict [(''code'', PStr ''CS203'')])))) =
     Inr (PDict [(''code'', PStr ''CS203'')])"
  by (simp add: load_courses_def initial_state_def)

text \<open>
  Claim C5. Whatever collection \<^verbatim>\<open>load_courses\<close> currently returns and whatever record is
  given, \<^verbatim>\<open>save_courses\<close> succeeds and rewrites the file so that it holds the previous
  collection with the record appended at the end: one record more, the earlier ones
  unchanged and in their order.
\<close>

theorem save_courses_appends:
  assumes "load_courses s = Inr (PList cs)"
  shows "save_courses c s = Inr (s\<lparr>course_file := Some (JSON (PList (cs @ [c])))\<rparr>) \<and>
         load_courses (s\<lparr>course_file := Some (JSON (PList (cs @ [c])))\<rparr>) = Inr (PList (cs @ [c])) \<and>
         length (cs @ [c]) = length cs + 1 \<and> take (length cs) (cs @ [c]) = cs"
  using assms by (simp add: save_courses_def load_courses_def)

theorem save_courses_appends_witness:
  "load_courses (initial_state (Some (JSON (PList [course_dict ''CS203'' ''Systems'' ''Dr. Y'']))))
     = Inr (PList [course_dict ''CS203'' ''Systems'' ''Dr. Y'']) \<and>
   save_courses (course_dict ''CS101'' ''Intro'' ''Dr. Z'')
     (initial_state (Some (JSON (PList [course_dict ''CS203'' ''Systems'' ''Dr. Y'']))))
     = Inr (initial_state (Some (JSON (PList [course_dict ''CS203'' ''Systems'' ''Dr. Y'',
                                               course_dict ''CS101'' ''Intro'' ''Dr. Z'']))))"
proof -
  have h: "load_courses (initial_state (Some (JSON (PList [course_dict ''CS203'' ''Systems'' ''Dr. Y'']))))
     = Inr (PList [course_dict ''CS203'' ''Systems'' ''Dr. Y''])"
    by (simp add: load_courses_def initial_state_def)
  from save_courses_appends [OF h, of "course_dict ''CS101'' ''Intro'' ''Dr. Z''"] h
  show ?thesis by (simp add: initial_state_def)
qed

lemma getitem_course_dict:
  "getitem (course_dict c n i) ''code'' = Inr (PStr c)"
  "getitem (course_dict c n i) ''name'' = Inr (PStr n)"
  by (simp_all add: course_dict_def)

lemma next_course_find:
  "next_course (map (\<lambda>(c, n, i). course_dict c n i) cs) k =
     Inr (case find (\<lambda>(c, n, i). c = k) cs of
            None \<Rightarrow> PNone
          | Some (c, n, i) \<Rightarrow> course_dict c n i)"
  by (induction cs) (auto simp add: getitem_course_dict)

lemma truthy_course_dict: "truthy (course_dict c n i)"
  by (simp add: course_dict_def)

lemma course_details_find:
  assumes "course_file s = Some (JSON (PList (map (\<lambda>(c, n, i). course_dict c n i) cs)))"
  shows "fst (course_details k r s) =
     (case find (\<lambda>(c, n, i). c = k) cs of
        None \<Rightarrow> Inr (redirect ''/catalog'')
      | Some (c, n, i) \<Rightarrow>
          Inr (render_template ''course_details.html'' [(''course'', course_dict c n i)]))"
  using assms
  by (simp add: course_details_eq Let_def load_courses_def next_course_find truthy_course_dict
           split: option.splits)

section \<open>Looking a course up\<close>

text \<open>
  Claim C6. For every stored collection of course records and every code \<open>k\<close>, the scan of
  \<^verbatim>\<open>course_details\<close> returns the first record in insertion order whose code equals \<open>k\<close>, and
  the view renders it; when no record matches, the scan returns \<^verbatim>\<open>None\<close> and the view
  redirects to the catalog. Appending a record with code \<open>k\<close> does not raise, duplicate or
  not, and the lookup afterwards still renders the first occurrence.
\<close>

theorem course_details_first_match:
  assumes "course_file s = Some (JSON (PList (map (\<lambda>(c, n, i). course_dict c n i) cs)))"
  shows "next_course (map (\<lambda>(c, n, i). course_dict c n i) cs) k =
           Inr (case find (\<lambda>(c, n, i). c = k) cs of
                  None \<Rightarrow> PNone
                | Some (c, n, i) \<Rightarrow> course_dict c n i) \<and>
         fst (course_details k r s) =
           (case find (\<lambda>(c, n, i). c = k) cs of
              None \<Rightarrow> Inr (redirect ''/catalog'')
            | Some (c, n, i) \<Rightarrow>
                Inr (render_template ''course_details.html'' [(''course'', course_dict c n i)])) \<and>
         save_courses (course_dict k n' i') s =
           Inr (s\<lparr>course_file := Some (JSON (PList (map (\<lambda>(c, n, i). course_dict c n i)
                                                      (cs @ [(k, n', i')]))))\<rparr>) \<and>
         fst (course_details k r
                (s\<lparr>course_file := Some (JSON (PList (map (\<lambda>(c, n, i). course_dict c n i)
                                                      (cs @ [(k, n', i')]))))\<rparr>)) =
           Inr (render_template ''course_details.html''
                  [(''course'', case find (\<lambda>(c, n, i). c = k) cs of
                                  None \<Rightarrow> course_dict k n' i'
                                | Some (c, n, i) \<Rightarrow> course_dict c n i)])"
proof -
  have a: "save_courses (course_dict k n' i') s =
           Inr (s\<lparr>course_file := Some (JSON (PList (map (\<lambda>(c, n, i). course_dict c n i)
                                                      (cs @ [(k, n', i')]))))\<rparr>)"
    using assms by (simp add: save_courses_def load_courses_def)
  have b: "course_file (s\<lparr>course_file := Some (JSON (PList (map (\<lambda>(c, n, i). course_dict c n i)
                                                      (cs @ [(k, n', i')]))))\<rparr>) =
           Some (JSON (PList (map (\<lambda>(c, n, i). course_dict c n i) (cs @ [(k, n', i')]))))"
    by simp
  have c: "find (\<lambda>(c, n, i). c = k) (cs @ [(k, n', i')]) =
             (case find (\<lambda>(c, n, i). c = k) cs of None \<Rightarrow> Some (k, n', i') | Some x \<Rightarrow> Some x)"
    by (induction cs) auto
  show ?thesis
    unfolding course_details_find [OF b] course_details_find [OF assms] a c next_course_find
    by (simp split: option.splits)
qed

theorem course_details_first_match_witness:
  "fst (course_details ''CS203'' (http_request ''GET'' ''/course/CS203'' [])
      (initial_state (Some (JSON (PList (map (\<lambda>(c, n, i). course_dict c n i)
         [(''CS101'', ''Intro'', ''Dr. Z''), (''CS203'', ''Systems'', ''Dr. Y''),
          (''CS203'', ''Networks'', ''Dr. W'')])))))) =
     Inr (render_template ''course_details.html''
            [(''course'', course_dict ''CS203'' ''Systems'' ''Dr. Y'')]) \<and>
   fst (course_details ''NOPE'' (http_request ''GET'' ''/course/NOPE'' [])
      (initial_state (Some (JSON (PList (map (\<lambda>(c, n, i). course_dict c n i)
         [(''CS101'', ''Intro'', ''Dr. Z''), (''CS203'', ''Systems'', ''Dr. Y''),
          (''CS203'', ''Networks'', ''Dr. W'')])))))) = Inr (redirect ''/catalog'')"
proof -
  have h: "course_file (initial_state (Some (JSON (PList (map (\<lambda>(c, n, i). course_dict c n i)
         [(''CS101'', ''Intro'', ''Dr. Z''), (''CS203'', ''Systems'', ''Dr. Y''),
          (''CS203'', ''Networks'', ''Dr. W'')]))))) =
       Some (JSON (PList (map (\<lambda>(c, n, i). course_dict c n i)
         [(''CS101'', ''Intro'', ''Dr. Z''), (''CS203'', ''Systems'', ''Dr. Y''),
          (''CS203'', ''Networks'', ''Dr. W'')])))"
    by (simp add: initial_state_def)
  from course_details_first_match [OF h, of "''CS203''" "http_request ''GET'' ''/course/CS203'' []"]
    course_details_first_match [OF h, of "''NOPE''" "http_request ''GET'' ''/course/NOPE'' []"]
  show ?thesis by simp
qed

section \<open>The catalog view\<close>

text \<open>
  Claim C7 on the code. The whole effect of \<^verbatim>\<open>course_catalog\<close> on the state, for every request
  and every content of the file: one span, already ended, with the three attributes set
  inside the \<^verbatim>\<open>with\<close> block, and one log record. The calls that set \<^verbatim>\<open>course.count\<close> and
  \<^verbatim>\<open>course.names\<close> come after the block, on the ended span, and leave no trace: neither
  this span nor any other carries the two attributes.
\<close>

theorem course_catalog_attributes_dropped:
  "snd (course_catalog r s) =
     s\<lparr>spans := spans s @
          [\<lparr>sp_name = ''Rendering Course Catalog'',
            sp_attributes = [(''http.method'', PStr (request_method r)),
                             (''user.ip'', opt_str (remote_addr r)),
                             (''route'', PStr ''/catalog'')],
            sp_ended = True\<rparr>],
        logger := logger s @
          [\<lparr>levelname = INFO, message = ''Successfully rendered the Course Catalog Page'',
            extra = [(''route'', PStr ''/catalog''),
                     (''method'', PStr (request_method r)),
                     (''user_ip'', opt_str (remote_addr r))]\<rparr>]\<rparr>"
  by (simp add: course_catalog_eq)

section \<open>Submitting a course\<close>

lemma not_truthy_form_get:
  "(\<not> truthy (form_get r k)) = (map_of (form r) k = None \<or> map_of (form r) k = Some [])"
  by (simp add: form_get_def opt_str_def split: option.splits)

lemma set_missing_fields:
  "set (missing_fields a b c) =
     {l. (l = ''Course Code'' \<and> \<not> truthy a) \<or> (l = ''Course Name'' \<and> \<not> truthy b) \<or>
         (l = ''Instructor'' \<and> \<not> truthy c)}"
  by (auto simp add: missing_fields_def)

text \<open>
  Claim C4. A POST to \<^verbatim>\<open>add_courses\<close> in which at least one of the three form fields is absent
  or the empty string is refused: the view redirects to the catalog, and the error it logs
  and flashes lists the missing fields. The list holds exactly the labels of the fields that
  are absent or empty, among Course Code, Course Name and Instructor.
\<close>

theorem add_courses_missing_fields:
  assumes "request_method r = ''POST''"
    and "map_of (form r) ''course-code'' \<in> {None, Some []} \<or>
         map_of (form r) ''courseName'' \<in> {None, Some []} \<or>
         map_of (form r) ''instructor'' \<in> {None, Some []}"
  shows "fst (add_courses r s) = Inr (redirect ''/catalog'') \<and>
         last (logger (snd (add_courses r s))) =
           \<lparr>levelname = ERROR, message = ''Missing required fields'',
            extra = [(''missing_fields'',
                        PList (map PStr (missing_fields (form_get r ''course-code'')
                           (form_get r ''courseName'') (form_get r ''instructor'')))),
                     (''route'', PStr ''/add_courses''),
                     (''method'', PStr (request_method r)),
                     (''user_ip'', opt_str (remote_addr r))]\<rparr> \<and>
         last (flashes (snd (add_courses r s))) =
           (''error'', ''Error: Missing required fields: '' @
              join '', '' (missing_fields (form_get r ''course-code'')
                 (form_get r ''courseName'') (form_get r ''instructor''))) \<and>
         set (missing_fields (form_get r ''course-code'') (form_get r ''courseName'')
                (form_get r ''instructor'')) =
           {l. (l = ''Course Code'' \<and> map_of (form r) ''course-code'' \<in> {None, Some []}) \<or>
               (l = ''Course Name'' \<and> map_of (form r) ''courseName'' \<in> {None, Some []}) \<or>
               (l = ''Instructor'' \<and> map_of (form r) ''instructor'' \<in> {None, Some []})}"
proof -
  from assms(2) have inv: "\<not> truthy (form_get r ''course-code'') \<or>
      \<not> truthy (form_get r ''courseName'') \<or> \<not> truthy (form_get r ''instructor'')"
    by (simp add: not_truthy_form_get)
  have st: "set (missing_fields (form_get r ''course-code'') (form_get r ''courseName'')
                (form_get r ''instructor'')) =
           {l. (l = ''Course Code'' \<and> map_of (form r) ''course-code'' \<in> {None, Some []}) \<or>
               (l = ''Course Name'' \<and> map_of (form r) ''courseName'' \<in> {None, Some []}) \<or>
               (l = ''Instructor'' \<and> map_of (form r) ''instructor'' \<in> {None, Some []})}"
    by (simp add: set_missing_fields not_truthy_form_get)
  from add_courses_invalid [OF assms(1) inv, of s] st show ?thesis by simp
qed

text \<open>The example of the specification: an empty code with a name and an instructor.\<close>

theorem add_courses_missing_fields_witness:
  "missing_fields
     (form_get (http_request ''POST'' ''/add_courses''
        [(''course-code'', ''''), (''courseName'', ''Algo''), (''instructor'', ''Dr. X'')]) ''course-code'')
     (form_get (http_request ''POST'' ''/add_courses''
        [(''course-code'', ''''), (''courseName'', ''Algo''), (''instructor'', ''Dr. X'')]) ''courseName'')
     (form_get (http_request ''POST'' ''/add_courses''
        [(''course-code'', ''''), (''courseName'', ''Algo''), (''instructor'', ''Dr. X'')]) ''instructor'')
     = [''Course Code''] \<and>
   fst (add_courses (http_request ''POST'' ''/add_courses''
        [(''course-code'', ''''), (''courseName'', ''Algo''), (''instructor'', ''Dr. X'')])
        (initial_state None)) = Inr (redirect ''/catalog'') \<and>
   last (logger (snd (add_courses (http_request ''POST'' ''/add_courses''
        [(''course-code'', ''''), (''courseName'', ''Algo''), (''instructor'', ''Dr. X'')])
        (initial_state None)))) =
     \<lparr>levelname = ERROR, message = ''Missing required fields'',
      extra = [(''missing_fields'', PList [PStr ''Course Code'']),
               (''route'', PStr ''/add_courses''),
               (''method'', PStr ''POST''),
               (''user_ip'', PStr ''127.0.0.1'')]\<rparr> \<and>
   last (flashes (snd (add_courses (http_request ''POST'' ''/add_courses''
        [(''course-code'', ''''), (''courseName'', ''Algo''), (''instructor'', ''Dr. X'')])
        (initial_state None)))) = (''error'', ''Error: Missing required fields: Course Code'')"
proof -
  have m: "request_method (http_request ''POST'' ''/add_courses''
        [(''course-code'', ''''), (''courseName'', ''Algo''), (''instructor'', ''Dr. X'')]) = ''POST''"
    by (simp add: http_request_def)
  have h: "map_of (form (http_request ''POST'' ''/add_courses''
        [(''course-code'', ''''), (''courseName'', ''Algo''), (''instructor'', ''Dr. X'')]))
        ''course-code'' \<in> {None, Some []} \<or>
      map_of (form (http_request ''POST'' ''/add_courses''
        [(''course-code'', ''''), (''courseName'', ''Algo''), (''instructor'', ''Dr. X'')]))
        ''courseName'' \<in> {None, Some []} \<or>
      map_of (form (http_request ''POST'' ''/add_courses''
        [(''course-code'', ''''), (''courseName'', ''Algo''), (''instructor'', ''Dr. X'')]))
        ''instructor'' \<in> {None, Some []}"
    by (simp add: http_request_def)
  have mf: "missing_fields
     (form_get (http_request ''POST'' ''/add_courses''
        [(''course-code'', ''''), (''courseName'', ''Algo''), (''instructor'', ''Dr. X'')]) ''course-code'')
     (form_get (http_request ''POST'' ''/add_courses''
        [(''course-code'', ''''), (''courseName'', ''Algo''), (''instructor'', ''Dr. X'')]) ''courseName'')
     (form_get (http_request ''POST'' ''/add_courses''
        [(''course-code'', ''''), (''courseName'', ''Algo''), (''instructor'', ''Dr. X'')]) ''instructor'')
     = [''Course Code'']"
    by (simp add: missing_fields_def form_get_def opt_str_def http_request_def)
  from add_courses_missing_fields [OF m h, of "initial_state None"] mf
  show ?thesis by (simp add: http_request_def opt_str_def)
qed



section \<open>What a request does to the stored courses\<close>

lemma view_course_file:
  "course_file (snd (view ep r s)) = course_file s \<or>
   (ep = Add_courses \<and> request_method r = ''POST'' \<and>
    (\<exists>xs d. load_courses s = Inr (PList xs) \<and>
       course_file (snd (view ep r s)) = Some (JSON (PList (xs @ [d])))))"
proof (cases ep)
  case Index
  then show ?thesis by (simp add: index_eq)
next
  case Course_catalog
  then show ?thesis by (simp add: course_catalog_eq)
next
  case (Course_details code)
  then show ?thesis by (simp add: course_details_eq Let_def split: sum.splits)
next
  case Add_courses
  show ?thesis
  proof (cases "request_method r = ''GET''")
    case True
    with Add_courses show ?thesis by (simp add: add_courses_GET)
  next
    case notget: False
    show ?thesis
    proof (cases "request_method r = ''POST''")
      case False
      with notget Add_courses show ?thesis by (simp add: add_courses_other)
    next
      case post: True
      show ?thesis
      proof (cases "truthy (form_get r ''course-code'') \<and> truthy (form_get r ''courseName'')
                      \<and> truthy (form_get r ''instructor'')")
        case False
        then have "\<not> truthy (form_get r ''course-code'') \<or> \<not> truthy (form_get r ''courseName'')
                     \<or> \<not> truthy (form_get r ''instructor'')" by blast
        from add_courses_invalid [OF post this] Add_courses show ?thesis by simp
      next
        case valid: True
        show ?thesis
        proof (cases "save_courses (PDict [(''code'', form_get r ''course-code''),
                      (''name'', form_get r ''courseName''),
                      (''instructor'', form_get r ''instructor'')]) s")
          case (Inl e)
          with post valid Add_courses show ?thesis by (simp add: add_courses_save_fails)
        next
          case (Inr s')
          from save_courses_Inr [OF Inr] obtain xs where "load_courses s = Inr (PList xs)"
            by blast
          with post valid Add_courses show ?thesis by (simp add: add_courses_valid)
        qed
      qed
    qed
  qed
qed

lemma match_path_add_courses:
  "match_path p = Some Add_courses \<Longrightarrow> p = ''/add_courses''"
  by (simp add: match_path_def split: if_splits)

lemma dispatch_request_course_file:
  "course_file (snd (dispatch_request r s)) = course_file s \<or>
   (path r = ''/add_courses'' \<and> request_method r = ''POST'' \<and>
    (\<exists>xs d. load_courses s = Inr (PList xs) \<and>
       course_file (snd (dispatch_request r s)) = Some (JSON (PList (xs @ [d])))))"
proof (cases "match_path (path r)")
  case None
  then show ?thesis by (simp add: dispatch_request_def)
next
  case (Some ep)
  show ?thesis
  proof (cases "request_method r \<notin> set (allowed_methods ep) \<or> request_method r = ''OPTIONS''")
    case True
    with Some show ?thesis by (auto simp add: dispatch_request_def)
  next
    case False
    with Some have d: "dispatch_request r s = view ep r s"
      by (simp add: dispatch_request_def)
    from view_course_file [of ep r s] Some show ?thesis
      unfolding d by (auto dest: match_path_add_courses)
  qed
qed

lemma wsgi_app_store:
  "course_file (snd (wsgi_app pe t0 t1 r s)) = course_file s \<or>
   (path r = ''/add_courses'' \<and> request_method r = ''POST'' \<and>
    (\<exists>xs d. load_courses s = Inr (PList xs) \<and>
       course_file (snd (wsgi_app pe t0 t1 r s)) = Some (JSON (PList (xs @ [d])))))"
  using dispatch_request_course_file [of r "snd (before_request t0 r s)"]
  by (simp add: wsgi_app_course_file before_request_eq load_courses_frame)

lemma dispatch_request_add_courses:
  "path r = ''/add_courses'' \<Longrightarrow> request_method r = ''POST'' \<Longrightarrow>
   dispatch_request r s = add_courses r s"
  by (simp add: dispatch_request_def match_path_def)

text \<open>
  Claim C8. The views \<^verbatim>\<open>index\<close>, \<^verbatim>\<open>course_catalog\<close> and \<^verbatim>\<open>course_details\<close>, and \<^verbatim>\<open>add_courses\<close> on
  a GET, leave the course file as it is. So does every request that is not a POST to
  \<^verbatim>\<open>/add_courses\<close>, whatever its path and method and however it ends. And whatever the
  request, the file afterwards is the file before, or it holds the list that was stored
  before with one record appended: no stored record is changed or removed.
\<close>

theorem course_file_only_appended:
  "course_file (snd (index r s)) = course_file s \<and>
   course_file (snd (course_catalog r s)) = course_file s \<and>
   course_file (snd (course_details k r s)) = course_file s \<and>
   (request_method r = ''GET'' \<longrightarrow> course_file (snd (add_courses r s)) = course_file s) \<and>
   (request_method r \<noteq> ''POST'' \<or> path r \<noteq> ''/add_courses'' \<longrightarrow>
      course_file (snd (wsgi_app pe t0 t1 r s)) = course_file s) \<and>
   (course_file (snd (wsgi_app pe t0 t1 r s)) = course_file s \<or>
    (\<exists>xs d. load_courses s = Inr (PList xs) \<and>
       course_file (snd (wsgi_app pe t0 t1 r s)) = Some (JSON (PList (xs @ [d])))))"
proof -
  have a: "course_file (snd (index r s)) = course_file s" by (simp add: index_eq)
  have b: "course_file (snd (course_catalog r s)) = course_file s"
    by (simp add: course_catalog_eq)
  have c: "course_file (snd (course_details k r s)) = course_file s"
    using view_course_file [of "Course_details k" r s] by simp
  have d: "request_method r = ''GET'' \<longrightarrow> course_file (snd (add_courses r s)) = course_file s"
    by (simp add: add_courses_GET)
  from wsgi_app_store [of pe t0 t1 r s] a b c d show ?thesis by blast
qed

text \<open>A catalog page and the submission form, requested over a store of one course.\<close>

theorem course_file_only_appended_witness:
  "course_file (snd (wsgi_app debug 1 2 (http_request ''GET'' ''/catalog'' [])
      (initial_state (Some (JSON (PList [course_dict ''CS203'' ''Systems'' ''Dr. Y'']))))))
     = Some (JSON (PList [course_dict ''CS203'' ''Systems'' ''Dr. Y''])) \<and>
   course_file (snd (add_courses (http_request ''GET'' ''/add_courses'' [])
      (initial_state (Some (JSON (PList [course_dict ''CS203'' ''Systems'' ''Dr. Y'']))))))
     = Some (JSON (PList [course_dict ''CS203'' ''Systems'' ''Dr. Y'']))"
  using course_file_only_appended [of "http_request ''GET'' ''/catalog'' []"
      "initial_state (Some (JSON (PList [course_dict ''CS203'' ''Systems'' ''Dr. Y''])))"
      "''CS203''" debug 1 2]
    course_file_only_appended [of "http_request ''GET'' ''/add_courses'' []"
      "initial_state (Some (JSON (PList [course_dict ''CS203'' ''Systems'' ''Dr. Y''])))"
      "''CS203''" debug 1 2]
  by (simp add: http_request_def initial_state_def)

text \<open>
  Claim C9. A POST to \<^verbatim>\<open>/add_courses\<close> with at least one field absent or empty is answered by
  the redirect to the catalog and leaves the course file as it was, at the view and over
  the whole request cycle: the branch returns before \<^verbatim>\<open>save_courses\<close> is reached.
\<close>

theorem invalid_submission_leaves_store:
  assumes "request_method r = ''POST''" and "path r = ''/add_courses''"
    and "map_of (form r) ''course-code'' \<in> {None, Some []} \<or>
         map_of (form r) ''courseName'' \<in> {None, Some []} \<or>
         map_of (form r) ''instructor'' \<in> {None, Some []}"
  shows "fst (add_courses r s) = Inr (redirect ''/catalog'') \<and>
         course_file (snd (add_courses r s)) = course_file s \<and>
         fst (wsgi_app pe t0 t1 r s) = Inr (redirect ''/catalog'') \<and>
         course_file (snd (wsgi_app pe t0 t1 r s)) = course_file s"
proof -
  from assms(3) have inv: "\<not> truthy (form_get r ''course-code'') \<or>
      \<not> truthy (form_get r ''courseName'') \<or> \<not> truthy (form_get r ''instructor'')"
    by (simp add: not_truthy_form_get)
  have v: "\<And>s. fst (add_courses r s) = Inr (redirect ''/catalog'') \<and>
         course_file (snd (add_courses r s)) = course_file s"
    by (simp add: add_courses_invalid [OF assms(1) inv])
  have d: "\<And>s. dispatch_request r s = add_courses r s"
    using assms by (simp add: dispatch_request_add_courses)
  have w1: "fst (wsgi_app pe t0 t1 r s) = Inr (redirect ''/catalog'')"
    by (simp add: wsgi_app_unfold d v finalize_request_eq)
  have w2: "course_file (snd (wsgi_app pe t0 t1 r s)) = course_file s"
    by (simp add: wsgi_app_course_file d v before_request_eq)
  from v [of s] w1 w2 show ?thesis by simp
qed

text \<open>A submission without a course name, over a store of one course.\<close>

theorem invalid_submission_leaves_store_witness:
  "fst (wsgi_app debug 1 2 (http_request ''POST'' ''/add_courses''
          [(''course-code'', ''CS101''), (''instructor'', ''Dr. Z'')])
        (initial_state (Some (JSON (PList [course_dict ''CS203'' ''Systems'' ''Dr. Y''])))))
     = Inr (redirect ''/catalog'') \<and>
   course_file (snd (wsgi_app debug 1 2 (http_request ''POST'' ''/add_courses''
          [(''course-code'', ''CS101''), (''instructor'', ''Dr. Z'')])
        (initial_state (Some (JSON (PList [course_dict ''CS203'' ''Systems'' ''Dr. Y'']))))))
     = Some (JSON (PList [course_dict ''CS203'' ''Systems'' ''Dr. Y'']))"
  using invalid_submission_leaves_store [of "http_request ''POST'' ''/add_courses''
          [(''course-code'', ''CS101''), (''instructor'', ''Dr. Z'')]"
        "initial_state (Some (JSON (PList [course_dict ''CS203'' ''Systems'' ''Dr. Y''])))"
        debug 1 2]
  by (simp add: http_request_def initial_state_def)

section \<open>The interceptor\<close>

text \<open>
  A request that is answered: the state after it is the state the view left, with the
  request's span tagged and ended and one sample, one histogram value and one log record
  added by \<^verbatim>\<open>after_request\<close>, the last after the record Flask logs for an exception that it
  turns into the 500 response. The spans the view started (\<open>new\<close>) are all ended.
\<close>

lemma request_cycle_state:
  assumes "wsgi_app pe t0 t1 r s = (Inr resp, s')"
  shows "\<exists>new.
     spans (snd (dispatch_request r (snd (before_request t0 r s)))) =
       spans s @
       \<lparr>sp_name = request_method r @ '' '' @ path r,
        sp_attributes = [(''http.method'', PStr (request_method r)), (''http.url'', PStr (url r))],
        sp_ended = False\<rparr> # new \<and>
     list_all sp_ended new \<and>
     s' = (snd (dispatch_request r (snd (before_request t0 r s))))
       \<lparr>spans := spans s @
          \<lparr>sp_name = request_method r @ '' '' @ path r,
           sp_attributes =
             [(''http.method'', PStr (request_method r)), (''http.url'', PStr (url r)),
              (''http.status_code'', PInt (status_code resp))] @
             (if 400 \<le> status_code resp then [(''error'', PBool True)] else []),
           sp_ended = True\<rparr> # new,
        route_request_counter := route_request_counter s @
          [(1, [(''route'', PStr (path r)), (''method'', PStr (request_method r))])],
        route_processing_time := route_processing_time s @
          [((t1 - t0) * 1000, [(''route'', PStr (path r)), (''method'', PStr (request_method r))])],
        error_counter := error_counter (snd (dispatch_request r (snd (before_request t0 r s)))) @
          (if 400 \<le> status_code resp
           then [(1, [(''route'', PStr (path r)), (''method'', PStr (request_method r))])] else []),
        logger := logger (snd (dispatch_request r (snd (before_request t0 r s)))) @ 
          (case fst (dispatch_request r (snd (before_request t0 r s))) of
             Inr x \<Rightarrow> []
           | Inl e \<Rightarrow>
               (case e of
                  HTTPException c \<Rightarrow> []
                | _ \<Rightarrow>
                    [\<lparr>levelname = ERROR,
                      message = ''Exception on '' @ path r @ '' ['' @ request_method r @ '']'',
                      extra = []\<rparr>])) @
          [\<lparr>levelname = INFO, message = ''Request processed'',
            extra = [(''method'', PStr (request_method r)),
                     (''path'', PStr (path r)),
                     (''status_code'', PInt (status_code resp)),
                     (''user_ip'', opt_str (remote_addr r)),
                     (''processing_time_ms'', PFloat ((t1 - t0) * 1000))]\<rparr>]\<rparr>"
proof -
  define rs where "rs = \<lparr>sp_name = request_method r @ '' '' @ path r,
        sp_attributes = [(''http.method'', PStr (request_method r)), (''http.url'', PStr (url r))],
        sp_ended = False\<rparr>"
  define s1 where "s1 = s\<lparr>spans := spans s @ [rs]\<rparr>"
  define s2 where "s2 = snd (dispatch_request r s1)"
  define exc where "exc =
     (case fst (dispatch_request r s1) of
        Inr x \<Rightarrow> []
      | Inl e \<Rightarrow>
          (case e of
             HTTPException c \<Rightarrow> []
           | _ \<Rightarrow>
               [\<lparr>levelname = ERROR,
                 message = ''Exception on '' @ path r @ '' ['' @ request_method r @ '']'',
                 extra = []\<rparr>]))"
  define s3 where "s3 = s2\<lparr>logger := logger s2 @ exc\<rparr>"
  define new where "new = drop (Suc (length (spans s))) (spans s2)"
  have b: "snd (before_request t0 r s) = s1"
    by (simp add: before_request_eq s1_def rs_def)
  from dispatch_request_frame [of s1 r]
  have f: "take (Suc (length (spans s))) (spans s2) = spans s @ [rs]"
    and e: "list_all sp_ended new"
    and c: "route_request_counter s2 = route_request_counter s"
    and p: "route_processing_time s2 = route_processing_time s"
    by (simp_all add: s1_def s2_def new_def)
  have "spans s2 = take (Suc (length (spans s))) (spans s2) @ new"
    by (simp add: new_def)
  with f have sp: "spans s2 = spans s @ rs # new" by simp
  then have sp3: "spans s3 = spans s @ rs # new" by (simp add: s3_def)
  have o: "\<not> sp_ended rs" by (simp add: rs_def)
  have l: "request_span \<lparr>start_time = t0, request_span = length (spans s)\<rparr> = length (spans s)"
    by simp
  from wsgi_app_Inr [OF assms]
  have "s' = snd (after_request t1 r \<lparr>start_time = t0, request_span = length (spans s)\<rparr> resp s3)"
    by (simp add: b s2_def s3_def exc_def)
  then have "s' = s2\<lparr>spans := spans s @
            \<lparr>sp_name = request_method r @ '' '' @ path r,
             sp_attributes =
               [(''http.method'', PStr (request_method r)), (''http.url'', PStr (url r)),
                (''http.status_code'', PInt (status_code resp))] @
               (if 400 \<le> status_code resp then [(''error'', PBool True)] else []),
             sp_ended = True\<rparr> # new,
          route_request_counter := route_request_counter s @
            [(1, [(''route'', PStr (path r)), (''method'', PStr (request_method r))])],
          route_processing_time := route_processing_time s @
            [((t1 - t0) * 1000, [(''route'', PStr (path r)), (''method'', PStr (request_method r))])],
          error_counter := error_counter s2 @
            (if 400 \<le> status_code resp
             then [(1, [(''route'', PStr (path r)), (''method'', PStr (request_method r))])] else []),
          logger := logger s2 @ exc @
            [\<lparr>levelname = INFO, message = ''Request processed'',
              extra = [(''method'', PStr (request_method r)),
                       (''path'', PStr (path r)),
                       (''status_code'', PInt (status_code resp)),
                       (''user_ip'', opt_str (remote_addr r)),
                       (''processing_time_ms'', PFloat ((t1 - t0) * 1000))]\<rparr>]\<rparr>"
    unfolding after_request_eq [OF sp3 o l]
    by (simp add: c p rs_def s3_def)
  with sp e show ?thesis
    unfolding b s2_def [symmetric] exc_def rs_def by blast
qed






lemma dispatch_request_catalog:
  "path r = ''/catalog'' \<Longrightarrow> request_method r = ''GET'' \<Longrightarrow>
   dispatch_request r s = course_catalog r s"
  by (simp add: dispatch_request_def match_path_def)

lemma wsgi_app_corrupt_500:
  "wsgi_app False 1 2 (http_request ''GET'' ''/catalog'' []) (initial_state (Some NotJSON)) =
     (Inr \<lparr>status_code = 500, content = Other\<rparr>,
      snd (wsgi_app False 1 2 (http_request ''GET'' ''/catalog'' [])
             (initial_state (Some NotJSON))))"
  by (rule prod_eqI)
     (simp_all add: wsgi_app_unfold finalize_request_eq dispatch_request_catalog
        course_catalog_eq load_courses_def before_request_eq initial_state_def http_request_def)

lemma wsgi_app_index_clock_back:
  "wsgi_app False 2 1 (http_request ''GET'' ''/'' []) (initial_state None) =
     (Inr (render_template ''index.html'' []),
      snd (wsgi_app False 2 1 (http_request ''GET'' ''/'' []) (initial_state None)))"
  by (rule prod_eqI)
     (simp_all add: wsgi_app_unfold finalize_request_eq dispatch_request_def match_path_def
        index_eq http_request_def)

lemma wsgi_app_last_logger:
  assumes "wsgi_app pe t0 t1 r s = (Inr resp, s')"
  shows "last (logger s') =
     \<lparr>levelname = INFO, message = ''Request processed'',
      extra = [(''method'', PStr (request_method r)),
               (''path'', PStr (path r)),
               (''status_code'', PInt (status_code resp)),
               (''user_ip'', opt_str (remote_addr r)),
               (''processing_time_ms'', PFloat ((t1 - t0) * 1000))]\<rparr>"
proof -
  from request_cycle_state [OF assms] obtain new where
    "s' = (snd (dispatch_request r (snd (before_request t0 r s))))
       \<lparr>spans := spans s @
          \<lparr>sp_name = request_method r @ '' '' @ path r,
           sp_attributes =
             [(''http.method'', PStr (request_method r)), (''http.url'', PStr (url r)),
              (''http.status_code'', PInt (status_code resp))] @
             (if 400 \<le> status_code resp then [(''error'', PBool True)] else []),
           sp_ended = True\<rparr> # new,
        route_request_counter := route_request_counter s @
          [(1, [(''route'', PStr (path r)), (''method'', PStr (request_method r))])],
        route_processing_time := route_processing_time s @
          [((t1 - t0) * 1000, [(''route'', PStr (path r)), (''method'', PStr (request_method r))])],
        error_counter := error_counter (snd (dispatch_request r (snd (before_request t0 r s)))) @
          (if 400 \<le> status_code resp
           then [(1, [(''route'', PStr (path r)), (''method'', PStr (request_method r))])] else []),
        logger := logger (snd (dispatch_request r (snd (before_request t0 r s)))) @ 
          (case fst (dispatch_request r (snd (before_request t0 r s))) of
             Inr x \<Rightarrow> []
           | Inl e \<Rightarrow>
               (case e of
                  HTTPException c \<Rightarrow> []
                | _ \<Rightarrow>
                    [\<lparr>levelname = ERROR,
                      message = ''Exception on '' @ path r @ '' ['' @ request_method r @ '']'',
                      extra = []\<rparr>])) @
          [\<lparr>levelname = INFO, message = ''Request processed'',
            extra = [(''method'', PStr (request_method r)),
                     (''path'', PStr (path r)),
                     (''status_code'', PInt (status_code resp)),
                     (''user_ip'', opt_str (remote_addr r)),
                     (''processing_time_ms'', PFloat ((t1 - t0) * 1000))]\<rparr>]\<rparr>"
    by blast
  then show ?thesis by simp
qed

lemma last_logger_clock_back:
  "last (logger (snd (wsgi_app False 2 1 (http_request ''GET'' ''/'' []) (initial_state None)))) =
     \<lparr>levelname = INFO, message = ''Request processed'',
      extra = [(''method'', PStr ''GET''), (''path'', PStr ''/''),
               (''status_code'', PInt 200), (''user_ip'', PStr ''127.0.0.1''),
               (''processing_time_ms'', PFloat (- 1000))]\<rparr>"
  using wsgi_app_last_logger [OF wsgi_app_index_clock_back]
  by (simp add: http_request_def render_template_def opt_str_def)

text \<open>
  Claim C1, as the code has it. When exceptions are not propagated, every request is
  answered by a response: a view that raises gives the 500 response. Whenever a request is
  answered by a response, under either setting, the spans that existed before are
  untouched, the request's span is the first new one, every span started during the
  request is ended, the request counter has exactly one sample more, and exactly one
  \<^verbatim>\<open>Request processed\<close> record has been logged. Its elapsed time is the difference of the
  two readings of the wall clock, in milliseconds, which is not negative when the second
  reading is not earlier than the first.
\<close>

theorem request_cycle_finalizes:
  "(\<exists>resp s'. wsgi_app False t0 t1 r s = (Inr resp, s')) \<and>
   (wsgi_app pe t0 t1 r s = (Inr resp, s') \<longrightarrow>
      take (length (spans s)) (spans s') = spans s \<and>
      length (spans s) < length (spans s') \<and>
      sp_name (spans s' ! length (spans s)) = request_method r @ '' '' @ path r \<and>
      list_all sp_ended (drop (length (spans s)) (spans s')) \<and>
      route_request_counter s' = route_request_counter s @
        [(1, [(''route'', PStr (path r)), (''method'', PStr (request_method r))])] \<and>
      filter (\<lambda>l. message l = ''Request processed'') (logger s') =
        filter (\<lambda>l. message l = ''Request processed'') (logger s) @
        [\<lparr>levelname = INFO, message = ''Request processed'',
          extra = [(''method'', PStr (request_method r)),
                   (''path'', PStr (path r)),
                   (''status_code'', PInt (status_code resp)),
                   (''user_ip'', opt_str (remote_addr r)),
                   (''processing_time_ms'', PFloat ((t1 - t0) * 1000))]\<rparr>] \<and>
      (t0 \<le> t1 \<longrightarrow> 0 \<le> (t1 - t0) * 1000))"
proof (intro conjI impI)
  show "\<exists>resp s'. wsgi_app False t0 t1 r s = (Inr resp, s')"
    by (rule wsgi_app_total)
next
  assume a: "wsgi_app pe t0 t1 r s = (Inr resp, s')"
  define s2 where "s2 = snd (dispatch_request r (snd (before_request t0 r s)))"
  from request_cycle_state [OF a] obtain new where
    sp: "spans s2 = spans s @
       \<lparr>sp_name = request_method r @ '' '' @ path r,
        sp_attributes = [(''http.method'', PStr (request_method r)), (''http.url'', PStr (url r))],
        sp_ended = False\<rparr> # new"
    and e: "list_all sp_ended new"
    and s': "s' = s2
       \<lparr>spans := spans s @
          \<lparr>sp_name = request_method r @ '' '' @ path r,
           sp_attributes =
             [(''http.method'', PStr (request_method r)), (''http.url'', PStr (url r)),
              (''http.status_code'', PInt (status_code resp))] @
             (if 400 \<le> status_code resp then [(''error'', PBool True)] else []),
           sp_ended = True\<rparr> # new,
        route_request_counter := route_request_counter s @
          [(1, [(''route'', PStr (path r)), (''method'', PStr (request_method r))])],
        route_processing_time := route_processing_time s @
          [((t1 - t0) * 1000, [(''route'', PStr (path r)), (''method'', PStr (request_method r))])],
        error_counter := error_counter s2 @
          (if 400 \<le> status_code resp
           then [(1, [(''route'', PStr (path r)), (''method'', PStr (request_method r))])] else []),
        logger := logger s2 @
          (case fst (dispatch_request r (snd (before_request t0 r s))) of
             Inr x \<Rightarrow> []
           | Inl e \<Rightarrow>
               (case e of
                  HTTPException c \<Rightarrow> []
                | _ \<Rightarrow>
                    [\<lparr>levelname = ERROR,
                      message = ''Exception on '' @ path r @ '' ['' @ request_method r @ '']'',
                      extra = []\<rparr>])) @
          [\<lparr>levelname = INFO, message = ''Request processed'',
            extra = [(''method'', PStr (request_method r)),
                     (''path'', PStr (path r)),
                     (''status_code'', PInt (status_code resp)),
                     (''user_ip'', opt_str (remote_addr r)),
                     (''processing_time_ms'', PFloat ((t1 - t0) * 1000))]\<rparr>]\<rparr>"
    unfolding s2_def by blast
  have lg: "filter (\<lambda>l. message l = ''Request processed'') (logger s2) =
            filter (\<lambda>l. message l = ''Request processed'') (logger s)"
    using dispatch_request_frame [of "snd (before_request t0 r s)" r]
    by (simp add: s2_def before_request_eq)
  show "take (length (spans s)) (spans s') = spans s" by (simp add: s')
  show "length (spans s) < length (spans s')" by (simp add: s')
  show "sp_name (spans s' ! length (spans s)) = request_method r @ '' '' @ path r"
    by (simp add: s')
  show "list_all sp_ended (drop (length (spans s)) (spans s'))"
    using e by (simp add: s')
  show "route_request_counter s' = route_request_counter s @
        [(1, [(''route'', PStr (path r)), (''method'', PStr (request_method r))])]"
    by (simp add: s')
  show "filter (\<lambda>l. message l = ''Request processed'') (logger s') =
        filter (\<lambda>l. message l = ''Request processed'') (logger s) @
        [\<lparr>levelname = INFO, message = ''Request processed'',
          extra = [(''method'', PStr (request_method r)),
                   (''path'', PStr (path r)),
                   (''status_code'', PInt (status_code resp)),
                   (''user_ip'', opt_str (remote_addr r)),
                   (''processing_time_ms'', PFloat ((t1 - t0) * 1000))]\<rparr>]"
    by (simp add: s' lg split: sum.splits error.splits)
next
  assume "t0 \<le> t1"
  then show "0 \<le> (t1 - t0) * 1000" by simp
qed

text \<open>
  A catalog request over a file that is not JSON, exceptions not propagated: the view
  raises, the answer is 500, and the span, the counter and the log record are all there.
\<close>

theorem request_cycle_finalizes_witness:
  "sp_name (spans (snd (wsgi_app False 1 2 (http_request ''GET'' ''/catalog'' [])
       (initial_state (Some NotJSON)))) ! 0) = ''GET /catalog'' \<and>
   list_all sp_ended (spans (snd (wsgi_app False 1 2 (http_request ''GET'' ''/catalog'' [])
       (initial_state (Some NotJSON))))) \<and>
   route_request_counter (snd (wsgi_app False 1 2 (http_request ''GET'' ''/catalog'' [])
       (initial_state (Some NotJSON)))) =
     [(1, [(''route'', PStr ''/catalog''), (''method'', PStr ''GET'')])] \<and>
   filter (\<lambda>l. message l = ''Request processed'')
     (logger (snd (wsgi_app False 1 2 (http_request ''GET'' ''/catalog'' [])
       (initial_state (Some NotJSON))))) =
     [\<lparr>levelname = INFO, message = ''Request processed'',
       extra = [(''method'', PStr ''GET''), (''path'', PStr ''/catalog''),
                (''status_code'', PInt 500), (''user_ip'', PStr ''127.0.0.1''),
                (''processing_time_ms'', PFloat 1000)]\<rparr>]"
  using request_cycle_finalizes [of 1 2 "http_request ''GET'' ''/catalog'' []"
      "initial_state (Some NotJSON)" False "\<lparr>status_code = 500, content = Other\<rparr>"
      "snd (wsgi_app False 1 2 (http_request ''GET'' ''/catalog'' [])
             (initial_state (Some NotJSON)))",
      THEN conjunct2, rule_format, OF wsgi_app_corrupt_500]
  by (simp add: http_request_def initial_state_def opt_str_def)

text \<open>
  Claim C1 as stated fails. Started by \<^verbatim>\<open>app.run(debug=True)\<close>, the same request ends with the
  exception: the request's span is left open, the request counter has no sample and no
  \<^verbatim>\<open>Request processed\<close> record is logged. And a request during which the wall clock is set
  back by a second is logged with an elapsed time of minus one thousand milliseconds.
\<close>

theorem request_cycle_leak_counterexample:
  "fst (wsgi_app debug 1 2 (http_request ''GET'' ''/catalog'' []) (initial_state (Some NotJSON)))
     = Inl JSONDecodeError \<and>
   map sp_name (spans (snd (wsgi_app debug 1 2 (http_request ''GET'' ''/catalog'' [])
       (initial_state (Some NotJSON))))) = [''GET /catalog'', ''Rendering Course Catalog''] \<and>
   map sp_ended (spans (snd (wsgi_app debug 1 2 (http_request ''GET'' ''/catalog'' [])
       (initial_state (Some NotJSON))))) = [False, True] \<and>
   route_request_counter (snd (wsgi_app debug 1 2 (http_request ''GET'' ''/catalog'' [])
       (initial_state (Some NotJSON)))) = [] \<and>
   map message (logger (snd (wsgi_app debug 1 2 (http_request ''GET'' ''/catalog'' [])
       (initial_state (Some NotJSON))))) = [''Successfully rendered the Course Catalog Page''] \<and>
   last (logger (snd (wsgi_app False 2 1 (http_request ''GET'' ''/'' []) (initial_state None)))) =
     \<lparr>levelname = INFO, message = ''Request processed'',
      extra = [(''method'', PStr ''GET''), (''path'', PStr ''/''),
               (''status_code'', PInt 200), (''user_ip'', PStr ''127.0.0.1''),
               (''processing_time_ms'', PFloat (- 1000))]\<rparr>"
  unfolding last_logger_clock_back
  by (simp add: wsgi_app_unfold debug_def dispatch_request_catalog
        course_catalog_eq load_courses_def before_request_eq initial_state_def http_request_def)

end
